theory Spec2Isabelle
  imports Main
begin

section \<open>Tensors\<close>

text \<open>
  The attention backend of \<^verbatim>\<open>triton_backend.py\<close> works on one-dimensional integer tensors
  (sequence lengths, prefix lengths, offsets) and on one two-dimensional floating point
  scratch tensor (\<^verbatim>\<open>attn_logits\<close>).  An integer tensor is its element type and its
  elements; arithmetic on it wraps around at the width of the element type, as the
  two's complement arithmetic of torch does.  The contents of a floating point tensor are
  never computed with here; they are kept as raw values.
\<close>

datatype error = IndexError | RuntimeError | AttributeError | TypeError | ZeroDivisionError

datatype int_dtype = Int32 | Int64

datatype float_dtype = Float16 | Float32

fun bits :: "int_dtype \<Rightarrow> nat" where
  "bits Int32 = 32"
| "bits Int64 = 64"

definition wrap_signed :: "nat \<Rightarrow> int \<Rightarrow> int" where
  "wrap_signed w x = (x + 2 ^ (w - 1)) mod 2 ^ w - 2 ^ (w - 1)"

definition cast :: "int_dtype \<Rightarrow> int \<Rightarrow> int" where
  "cast dt x = wrap_signed (bits dt) x"

definition representable :: "int_dtype \<Rightarrow> int \<Rightarrow> bool" where
  "representable dt x \<longleftrightarrow> - (2 ^ (bits dt - 1)) \<le> x \<and> x < 2 ^ (bits dt - 1)"

record int_tensor =
  dtype :: int_dtype
  elems :: "int list"

record float_tensor =
  fdtype :: float_dtype
  fshape :: "nat \<times> nat"
  fdata :: "int list"

text \<open>\<^verbatim>\<open>torch.zeros((n,), dtype=dt)\<close>; a negative dimension raises.\<close>

definition torch_zeros :: "int \<Rightarrow> int_dtype \<Rightarrow> error + int_tensor" where
  "torch_zeros n dt =
     (if n < 0 then Inl RuntimeError
      else Inr \<lparr>dtype = dt, elems = replicate (nat n) 0\<rparr>)"

text \<open>\<^verbatim>\<open>torch.zeros_like(t, dtype=dt)\<close>: the shape of \<open>t\<close>, the given element type.\<close>

definition zeros_like :: "int_tensor \<Rightarrow> int_dtype \<Rightarrow> int_tensor" where
  "zeros_like t dt = \<lparr>dtype = dt, elems = replicate (length (elems t)) 0\<rparr>"

text \<open>\<^verbatim>\<open>t.zero_()\<close>: every element becomes 0, shape and element type stay.\<close>

definition zero_inplace :: "int_tensor \<Rightarrow> int_tensor" where
  "zero_inplace t = t\<lparr>elems := replicate (length (elems t)) 0\<rparr>"

text \<open>
  \<^verbatim>\<open>torch.empty((r, c), dtype=dt)\<close>: the memory is not initialised, the tensor holds
  whatever the memory \<open>mem\<close> handed out by the allocator held.  A negative dimension raises.
\<close>

definition torch_empty :: "int \<Rightarrow> int \<Rightarrow> float_dtype \<Rightarrow> (nat \<Rightarrow> int) \<Rightarrow> error + float_tensor" where
  "torch_empty r c dt mem =
     (if r < 0 \<or> c < 0 then Inl RuntimeError
      else Inr \<lparr>fdtype = dt, fshape = (nat r, nat c), fdata = map mem [0 ..< nat r * nat c]\<rparr>)"

text \<open>
  \<^verbatim>\<open>torch.cumsum(t, dim=0)\<close> of an integer tensor: the running sum is accumulated and
  returned as int64.
\<close>

fun cumsum_from :: "int \<Rightarrow> int list \<Rightarrow> int list" where
  "cumsum_from acc [] = []"
| "cumsum_from acc (x # xs) = cast Int64 (acc + x) # cumsum_from (cast Int64 (acc + x)) xs"

definition cumsum :: "int_tensor \<Rightarrow> int_tensor" where
  "cumsum t = \<lparr>dtype = Int64, elems = cumsum_from 0 (elems t)\<rparr>"

text \<open>\<^verbatim>\<open>torch.sum(t).item()\<close> of an integer tensor: the int64 sum as a Python integer.\<close>

definition torch_sum :: "int_tensor \<Rightarrow> int" where
  "torch_sum t = cast Int64 (sum_list (elems t))"

text \<open>\<^verbatim>\<open>torch.max(t).item()\<close>; it raises on a tensor without elements.\<close>

definition torch_max :: "int_tensor \<Rightarrow> error + int" where
  "torch_max t = (case elems t of [] \<Rightarrow> Inl RuntimeError | x # xs \<Rightarrow> Inr (fold max xs x))"

text \<open>
  \<^verbatim>\<open>a - b\<close> on integer tensors: the result has the wider of the two element types, a
  tensor with one element is broadcast against the other, any other two different lengths
  raise.
\<close>

fun promote :: "int_dtype \<Rightarrow> int_dtype \<Rightarrow> int_dtype" where
  "promote Int32 Int32 = Int32"
| "promote _ _ = Int64"

definition tensor_sub :: "int_tensor \<Rightarrow> int_tensor \<Rightarrow> error + int_tensor" where
  "tensor_sub a b =
     (let dt = promote (dtype a) (dtype b); xs = elems a; ys = elems b in
      if length xs = length ys
        then Inr \<lparr>dtype = dt, elems = map2 (\<lambda>x y. cast dt (x - y)) xs ys\<rparr>
      else if length ys = 1
        then Inr \<lparr>dtype = dt, elems = map (\<lambda>x. cast dt (x - hd ys)) xs\<rparr>
      else if length xs = 1
        then Inr \<lparr>dtype = dt, elems = map (\<lambda>y. cast dt (hd xs - y)) ys\<rparr>
      else Inl RuntimeError)"

text \<open>
  \<^verbatim>\<open>t[index]\<close> with a list of integer indices: a negative index counts from the end, an
  index outside \<open>[-n, n)\<close> raises.
\<close>

fun gather :: "int list \<Rightarrow> int list \<Rightarrow> error + int list" where
  "gather xs [] = Inr []"
| "gather xs (i # ix) =
     (let n = int (length xs); j = (if i < 0 then i + n else i) in
      if 0 \<le> j \<and> j < n
        then (case gather xs ix of Inl e \<Rightarrow> Inl e | Inr ys \<Rightarrow> Inr (xs ! nat j # ys))
      else Inl IndexError)"

definition index_tensor :: "int_tensor \<Rightarrow> int list \<Rightarrow> error + int_tensor" where
  "index_tensor t ix =
     (case gather (elems t) ix of Inl e \<Rightarrow> Inl e | Inr ys \<Rightarrow> Inr (t\<lparr>elems := ys\<rparr>))"

text \<open>
  Python slices \<^verbatim>\<open>t[lo:hi]\<close>: a missing bound is the end of the tensor, a negative bound
  counts from the end, and every bound is clamped to \<open>[0, n]\<close>.
\<close>

definition slice_bound :: "nat \<Rightarrow> int \<Rightarrow> nat" where
  "slice_bound n i = (if i < 0 then nat (max 0 (int n + i)) else min n (nat i))"

definition slice_lo :: "nat \<Rightarrow> int option \<Rightarrow> nat" where
  "slice_lo n lo = (case lo of None \<Rightarrow> 0 | Some i \<Rightarrow> slice_bound n i)"

definition slice_hi :: "nat \<Rightarrow> int option \<Rightarrow> nat" where
  "slice_hi n hi = (case hi of None \<Rightarrow> n | Some i \<Rightarrow> slice_bound n i)"

definition getslice :: "int option \<Rightarrow> int option \<Rightarrow> int_tensor \<Rightarrow> int_tensor" where
  "getslice lo hi t =
     (let n = length (elems t); a = slice_lo n lo; b = slice_hi n hi in
      t\<lparr>elems := take (b - a) (drop a (elems t))\<rparr>)"

text \<open>
  \<^verbatim>\<open>dst[lo:hi] = src\<close>: the elements of \<open>src\<close> are converted to the element type of
  \<open>dst\<close> and written in place.  \<open>src\<close> must have as many elements as the slice, or one
  element, which is then written to every place of the slice; otherwise the assignment
  raises and \<open>dst\<close> is as before.
\<close>

definition setslice :: "int option \<Rightarrow> int option \<Rightarrow> int_tensor \<Rightarrow> int_tensor \<Rightarrow> error + int_tensor" where
  "setslice lo hi dst src =
     (let n = length (elems dst); a = slice_lo n lo; b = slice_hi n hi; k = b - a;
          ys = map (cast (dtype dst)) (elems src) in
      if length ys = k
        then Inr (dst\<lparr>elems := take a (elems dst) @ ys @ drop (a + k) (elems dst)\<rparr>)
      else if length ys = 1
        then Inr (dst\<lparr>elems := take a (elems dst) @ replicate k (hd ys) @ drop (a + k) (elems dst)\<rparr>)
      else Inl RuntimeError)"

section \<open>The store\<close>

text \<open>
  Tensors are objects with an identity: the metadata of the backend refers to them, and
  the replay of a captured graph writes into them in place.  The store maps references
  to tensors; \<open>next_ref\<close> is the next free reference, and \<open>uninit r\<close> is what the memory
  that the allocator hands out for the object \<open>r\<close> holds before anything is written.
\<close>

datatype obj = IntT int_tensor | FloatT float_tensor

type_synonym ref = nat

record heap =
  cells :: "ref \<Rightarrow> obj option"
  next_ref :: ref
  uninit :: "ref \<Rightarrow> nat \<Rightarrow> int"

definition alloc :: "obj \<Rightarrow> heap \<Rightarrow> ref \<times> heap" where
  "alloc ob h =
     (next_ref h, h\<lparr>cells := (cells h)(next_ref h \<mapsto> ob), next_ref := Suc (next_ref h)\<rparr>)"

definition store :: "ref \<Rightarrow> obj \<Rightarrow> heap \<Rightarrow> heap" where
  "store r ob h = h\<lparr>cells := (cells h)(r \<mapsto> ob)\<rparr>"

text \<open>
  The outcome of a method that changes the backend or the store: it returns, or it raises;
  either way with the state it leaves behind.
\<close>

datatype 's outcome = Done 's | Raised error 's

fun state_of :: "'s outcome \<Rightarrow> 's" where
  "state_of (Done s) = s"
| "state_of (Raised e s) = s"

section \<open>The batch and the backend\<close>

text \<open>
  Modelled from the spec: the execution mode of a batch (\<^verbatim>\<open>ForwardMode\<close>, declared outside
  this file) is one of DECODE and EXTEND, and \<^verbatim>\<open>is_decode()\<close> tells the first.
\<close>

datatype forward_mode = DECODE | EXTEND

fun is_decode :: "forward_mode \<Rightarrow> bool" where
  "is_decode DECODE = True"
| "is_decode EXTEND = False"

text \<open>
  \<^verbatim>\<open>ForwardBatch\<close> is declared outside this file; these are the fields that the backend
  reads.  \<open>local_seq_indices\<close> is the index list of a sub-batch, \<open>None\<close> for a whole
  batch.
\<close>

record forward_batch =
  forward_mode :: forward_mode
  req_pool_indices :: int_tensor
  seq_lens :: int_tensor
  extend_prefix_lens :: int_tensor
  extend_seq_lens :: int_tensor
  extend_start_loc :: int_tensor
  local_seq_indices :: "int list option"

text \<open>
  \<^verbatim>\<open>forward_metadata\<close> is the tuple \<^verbatim>\<open>(start_loc, attn_logits, max_seq_len, max_extend_len)\<close>;
  \<open>None\<close> is Python's \<^verbatim>\<open>None\<close>.
\<close>

type_synonym metadata = "ref option \<times> ref option \<times> int option \<times> int option"

text \<open>
  The attributes of \<^verbatim>\<open>TritonAttnBackend\<close>.  The three attributes of the graph state exist
  only after \<^verbatim>\<open>init_cuda_graph_state\<close>; \<open>None\<close> there means that the attribute is not set.
\<close>

record backend =
  num_head :: nat
  reduce_dtype :: float_dtype
  forward_metadata :: "metadata option"
  cuda_graph_max_seq_len :: nat
  cuda_graph_max_total_num_tokens :: "int option"
  cuda_graph_start_loc :: "ref option"
  cuda_graph_attn_logits :: "ref option"

text \<open>
  What \<^verbatim>\<open>__init__\<close> reads: the head count, the tensor parallel size and the context
  length of the model runner (counts, hence natural numbers), and the global dictionary of
  server arguments.
\<close>

record model_runner =
  num_attention_heads :: nat
  tp_size :: nat
  context_len :: nat

definition dict_get :: "(string \<Rightarrow> bool option) \<Rightarrow> string \<Rightarrow> bool \<Rightarrow> bool" where
  "dict_get d k dflt = (case d k of None \<Rightarrow> dflt | Some v \<Rightarrow> v)"

definition init :: "(string \<Rightarrow> bool option) \<Rightarrow> model_runner \<Rightarrow> error + backend" where
  "init global_server_args_dict mr =
     (if \<not> dict_get global_server_args_dict ''enable_mla_dp'' False \<and> tp_size mr = 0
        then Inl ZeroDivisionError
      else Inr
       \<lparr>num_head =
          (if dict_get global_server_args_dict ''enable_mla_dp'' False
             then num_attention_heads mr
           else num_attention_heads mr div tp_size mr),
        reduce_dtype =
          (if dict_get global_server_args_dict ''triton_attention_reduce_in_fp32'' False
             then Float32 else Float16),
        forward_metadata = None,
        cuda_graph_max_seq_len = context_len mr,
        cuda_graph_max_total_num_tokens = None,
        cuda_graph_start_loc = None,
        cuda_graph_attn_logits = None\<rparr>)"

section \<open>Building the metadata\<close>

text \<open>
  \<^verbatim>\<open>t[forward_batch.local_seq_indices]\<close> when the batch carries an index list, \<open>t\<close>
  itself otherwise.
\<close>

definition local_slice :: "int list option \<Rightarrow> int_tensor \<Rightarrow> error + int_tensor" where
  "local_slice ix t = (case ix of None \<Rightarrow> Inr t | Some i \<Rightarrow> index_tensor t i)"

text \<open>
  The offsets of the decode branch:
  \<^verbatim>\<open>start_loc = torch.zeros_like(seq_lens, dtype=torch.int32)\<close>,
  \<^verbatim>\<open>start_loc[1:] = torch.cumsum(seq_lens[:-1], dim=0)\<close>.
\<close>

definition decode_start_loc :: "int_tensor \<Rightarrow> error + int_tensor" where
  "decode_start_loc sl =
     setslice (Some 1) None (zeros_like sl Int32) (cumsum (getslice None (Some (- 1)) sl))"

text \<open>
  \<^verbatim>\<open>init_forward_metadata\<close>.  The two tensors of the decode branch are new objects of the
  store, \<open>start_loc\<close> first; when the method raises, \<^verbatim>\<open>self.forward_metadata\<close> has not
  been assigned and nothing refers to what was allocated, so the state is as before.
\<close>

definition init_forward_metadata ::
  "backend \<Rightarrow> heap \<Rightarrow> forward_batch \<Rightarrow> (backend \<times> heap) outcome" where
  "init_forward_metadata self h fb =
     (case local_slice (local_seq_indices fb) (seq_lens fb) of
        Inl e \<Rightarrow> Raised e (self, h)
      | Inr sl \<Rightarrow>
          if is_decode (forward_mode fb) then
            (case decode_start_loc sl of
               Inl e \<Rightarrow> Raised e (self, h)
             | Inr start_loc \<Rightarrow>
                 let (r1, h1) = alloc (IntT start_loc) h;
                     total_num_tokens = torch_sum sl in
                 (case torch_empty (int (num_head self)) total_num_tokens (reduce_dtype self)
                         (uninit h1 (next_ref h1)) of
                    Inl e \<Rightarrow> Raised e (self, h)
                  | Inr attn_logits \<Rightarrow>
                      let (r2, h2) = alloc (FloatT attn_logits) h1 in
                      (case (if 0 < length (elems sl) then torch_max sl else Inr 0) of
                         Inl e \<Rightarrow> Raised e (self, h)
                       | Inr max_seq_len \<Rightarrow>
                           Done (self\<lparr>forward_metadata :=
                                   Some (Some r1, Some r2, Some max_seq_len, None)\<rparr>, h2))))
          else
            (case local_slice (local_seq_indices fb) (extend_prefix_lens fb) of
               Inl e \<Rightarrow> Raised e (self, h)
             | Inr prefix_lens \<Rightarrow>
                 (case (if 0 < length (elems sl)
                          then (case tensor_sub sl prefix_lens of
                                  Inl e \<Rightarrow> Inl e | Inr d \<Rightarrow> torch_max d)
                        else Inr 0) of
                    Inl e \<Rightarrow> Raised e (self, h)
                  | Inr max_extend_len \<Rightarrow>
                      Done (self\<lparr>forward_metadata :=
                              Some (None, None, None, Some max_extend_len)\<rparr>, h))))"

section \<open>The graph state: allocation, capture and replay\<close>

text \<open>
  \<^verbatim>\<open>init_cuda_graph_state\<close>: the attributes are assigned one after the other, so a raise
  leaves those assigned before it.
\<close>

definition init_cuda_graph_state :: "backend \<Rightarrow> heap \<Rightarrow> int \<Rightarrow> (backend \<times> heap) outcome" where
  "init_cuda_graph_state self h max_bs =
     (let self1 = self\<lparr>cuda_graph_max_total_num_tokens :=
                        Some (max_bs * int (cuda_graph_max_seq_len self))\<rparr> in
      case torch_zeros max_bs Int32 of
        Inl e \<Rightarrow> Raised e (self1, h)
      | Inr z \<Rightarrow>
          let (r1, h1) = alloc (IntT z) h;
              self2 = self1\<lparr>cuda_graph_start_loc := Some r1\<rparr> in
          (case torch_empty (int (num_head self)) (max_bs * int (cuda_graph_max_seq_len self))
                  (reduce_dtype self) (uninit h1 (next_ref h1)) of
             Inl e \<Rightarrow> Raised e (self2, h1)
           | Inr a \<Rightarrow>
               let (r2, h2) = alloc (FloatT a) h1 in
               Done (self2\<lparr>cuda_graph_attn_logits := Some r2\<rparr>, h2)))"

text \<open>
  \<^verbatim>\<open>init_forward_metadata_capture_cuda_graph\<close>: none of its three arguments is read.
\<close>

definition init_forward_metadata_capture_cuda_graph ::
  "backend \<Rightarrow> heap \<Rightarrow> int \<Rightarrow> int_tensor \<Rightarrow> int_tensor \<Rightarrow> (backend \<times> heap) outcome" where
  "init_forward_metadata_capture_cuda_graph self h bs pool_indices sl =
     (case cuda_graph_start_loc self of
        None \<Rightarrow> Raised AttributeError (self, h)
      | Some a \<Rightarrow>
          (case cuda_graph_attn_logits self of
             None \<Rightarrow> Raised AttributeError (self, h)
           | Some c \<Rightarrow>
               Done (self\<lparr>forward_metadata :=
                       Some (Some a, Some c, Some (int (cuda_graph_max_seq_len self)), None)\<rparr>,
                     h)))"

text \<open>
  \<^verbatim>\<open>init_forward_metadata_replay_cuda_graph\<close>:
  \<^verbatim>\<open>self.cuda_graph_start_loc.zero_()\<close>, then
  \<^verbatim>\<open>self.cuda_graph_start_loc[1:bs] = torch.cumsum(seq_lens[: bs - 1], dim=0)\<close>.
  The table is zeroed in place before the assignment can raise.  The attribute always
  refers to the integer tensor that \<^verbatim>\<open>init_cuda_graph_state\<close> allocated; a store in which
  it does not is answered with an error.
\<close>

definition init_forward_metadata_replay_cuda_graph ::
  "backend \<Rightarrow> heap \<Rightarrow> int \<Rightarrow> int_tensor \<Rightarrow> int_tensor \<Rightarrow> (backend \<times> heap) outcome" where
  "init_forward_metadata_replay_cuda_graph self h bs pool_indices sl =
     (case cuda_graph_start_loc self of
        None \<Rightarrow> Raised AttributeError (self, h)
      | Some a \<Rightarrow>
          (case cells h a of
             Some (IntT t) \<Rightarrow>
               let h1 = store a (IntT (zero_inplace t)) h in
               (case setslice (Some 1) (Some bs) (zero_inplace t)
                       (cumsum (getslice None (Some (bs - 1)) sl)) of
                  Inl e \<Rightarrow> Raised e (self, h1)
                | Inr t' \<Rightarrow> Done (self, store a (IntT t') h1))
           | _ \<Rightarrow> Raised TypeError (self, h)))"

definition get_cuda_graph_seq_len_fill_value :: "backend \<Rightarrow> int" where
  "get_cuda_graph_seq_len_fill_value self = 1"

section \<open>The arguments of the kernels\<close>

text \<open>
  \<^verbatim>\<open>forward_extend\<close> and \<^verbatim>\<open>forward_decode\<close> hand the pool indices, the lengths and
  the offsets of the requests to kernels that are outside this file.  The model computes
  those arguments of the kernel call, in the order in which the source evaluates them; the
  query, key and value tensors and the cache pool take no part in them.  Unpacking
  \<^verbatim>\<open>self.forward_metadata\<close> while it is still \<^verbatim>\<open>None\<close> raises a TypeError.
\<close>

record extend_call =
  ext_req_pool_indices :: int_tensor
  ext_seq_lens :: int_tensor
  ext_extend_seq_lens :: int_tensor
  ext_extend_start_loc :: int_tensor
  ext_max_extend_len :: "int option"

definition forward_extend :: "backend \<Rightarrow> forward_batch \<Rightarrow> error + extend_call" where
  "forward_extend self fb =
     (case local_seq_indices fb of
        Some ix \<Rightarrow>
          (case index_tensor (seq_lens fb) ix of
             Inl e \<Rightarrow> Inl e
           | Inr sl \<Rightarrow>
               (case index_tensor (extend_seq_lens fb) ix of
                  Inl e \<Rightarrow> Inl e
                | Inr esl \<Rightarrow>
                    (case setslice (Some 1) None (zeros_like esl (dtype esl))
                            (cumsum (getslice None (Some (- 1)) esl)) of
                       Inl e \<Rightarrow> Inl e
                     | Inr esloc \<Rightarrow>
                         (case forward_metadata self of
                            None \<Rightarrow> Inl TypeError
                          | Some (start_loc, attn_logits, max_seq_len, max_extend_len) \<Rightarrow>
                              Inr \<lparr>ext_req_pool_indices = req_pool_indices fb,
                                   ext_seq_lens = sl, ext_extend_seq_lens = esl,
                                   ext_extend_start_loc = esloc,
                                   ext_max_extend_len = max_extend_len\<rparr>))))
      | None \<Rightarrow>
          (case forward_metadata self of
             None \<Rightarrow> Inl TypeError
           | Some (start_loc, attn_logits, max_seq_len, max_extend_len) \<Rightarrow>
               Inr \<lparr>ext_req_pool_indices = req_pool_indices fb,
                    ext_seq_lens = seq_lens fb, ext_extend_seq_lens = extend_seq_lens fb,
                    ext_extend_start_loc = extend_start_loc fb,
                    ext_max_extend_len = max_extend_len\<rparr>))"

record decode_call =
  dec_req_pool_indices :: int_tensor
  dec_start_loc :: "ref option"
  dec_seq_lens :: int_tensor
  dec_attn_logits :: "ref option"
  dec_max_seq_len :: "int option"

definition forward_decode :: "backend \<Rightarrow> forward_batch \<Rightarrow> error + decode_call" where
  "forward_decode self fb =
     (case forward_metadata self of
        None \<Rightarrow> Inl TypeError
      | Some (start_loc, attn_logits, max_seq_len, max_extend_len) \<Rightarrow>
          (case local_slice (local_seq_indices fb) (seq_lens fb) of
             Inl e \<Rightarrow> Inl e
           | Inr sl \<Rightarrow>
               Inr \<lparr>dec_req_pool_indices = req_pool_indices fb,
                    dec_start_loc = start_loc, dec_seq_lens = sl,
                    dec_attn_logits = attn_logits, dec_max_seq_len = max_seq_len\<rparr>))"

section \<open>Reading the state\<close>

text \<open>The error of an outcome that raised.\<close>

fun raised :: "'s outcome \<Rightarrow> error option" where
  "raised (Done s) = None"
| "raised (Raised e s) = Some e"

text \<open>
  The tensors that the stored metadata and the graph state refer to, read through the
  store.
\<close>

definition metadata_start_loc :: "backend \<times> heap \<Rightarrow> int_tensor option" where
  "metadata_start_loc s =
     (case forward_metadata (fst s) of
        Some (Some r, al, ms, me) \<Rightarrow>
          (case cells (snd s) r of Some (IntT t) \<Rightarrow> Some t | _ \<Rightarrow> None)
      | _ \<Rightarrow> None)"

definition metadata_attn_logits :: "backend \<times> heap \<Rightarrow> float_tensor option" where
  "metadata_attn_logits s =
     (case forward_metadata (fst s) of
        Some (sl, Some r, ms, me) \<Rightarrow>
          (case cells (snd s) r of Some (FloatT t) \<Rightarrow> Some t | _ \<Rightarrow> None)
      | _ \<Rightarrow> None)"

definition metadata_max_seq_len :: "backend \<times> heap \<Rightarrow> int option" where
  "metadata_max_seq_len s =
     (case forward_metadata (fst s) of Some (sl, al, ms, me) \<Rightarrow> ms | None \<Rightarrow> None)"

definition metadata_max_extend_len :: "backend \<times> heap \<Rightarrow> int option" where
  "metadata_max_extend_len s =
     (case forward_metadata (fst s) of Some (sl, al, ms, me) \<Rightarrow> me | None \<Rightarrow> None)"

definition graph_start_loc :: "backend \<times> heap \<Rightarrow> int_tensor option" where
  "graph_start_loc s =
     (case cuda_graph_start_loc (fst s) of
        Some a \<Rightarrow> (case cells (snd s) a of Some (IntT t) \<Rightarrow> Some t | _ \<Rightarrow> None)
      | None \<Rightarrow> None)"

definition graph_attn_logits :: "backend \<times> heap \<Rightarrow> float_tensor option" where
  "graph_attn_logits s =
     (case cuda_graph_attn_logits (fst s) of
        Some c \<Rightarrow> (case cells (snd s) c of Some (FloatT t) \<Rightarrow> Some t | _ \<Rightarrow> None)
      | None \<Rightarrow> None)"

text \<open>
  What two runs of \<^verbatim>\<open>init_forward_metadata\<close> can be compared on: the offsets, the
  element type and shape of the accumulator, and the two maxima.  The contents of the
  accumulator are left out: they are whatever \<^verbatim>\<open>torch.empty\<close> found in memory.
\<close>

definition metadata_view ::
  "backend \<times> heap \<Rightarrow> int_tensor option \<times> (float_dtype \<times> nat \<times> nat) option \<times> int option \<times> int option" where
  "metadata_view s =
     (metadata_start_loc s,
      map_option (\<lambda>t. (fdtype t, fshape t)) (metadata_attn_logits s),
      metadata_max_seq_len s,
      metadata_max_extend_len s)"

section \<open>The properties as predicates\<close>

text \<open>
  \<open>S\<close> is the table of start offsets of the lengths \<open>L\<close>: it starts at 0, every later
  entry adds the length before it, and the last entry plus the last length is the total.
\<close>

definition is_offsets :: "int list \<Rightarrow> int list \<Rightarrow> bool" where
  "is_offsets L S \<longleftrightarrow>
     length S = length L \<and> S ! 0 = 0 \<and>
     (\<forall>i \<in> {1 ..< length L}. S ! i = S ! (i - 1) + L ! (i - 1)) \<and>
     S ! (length L - 1) + L ! (length L - 1) = sum_list L"

text \<open>
  The fields of the two modes exclude each other: the three decode fields are set and
  \<open>max_extend_len\<close> is not, or the other way round.
\<close>

fun mode_exclusive :: "metadata \<Rightarrow> bool" where
  "mode_exclusive (start_loc, attn_logits, max_seq_len, max_extend_len) =
     (if max_extend_len = None
        then start_loc \<noteq> None \<and> attn_logits \<noteq> None \<and> max_seq_len \<noteq> None
      else start_loc = None \<and> attn_logits = None \<and> max_seq_len = None)"

section \<open>Example states and batches\<close>

definition example_heap :: heap where
  "example_heap = \<lparr>cells = (\<lambda>r. None), next_ref = 0, uninit = (\<lambda>r i. int r)\<rparr>"

definition example_backend :: backend where
  "example_backend =
     \<lparr>num_head = 2, reduce_dtype = Float16, forward_metadata = None,
      cuda_graph_max_seq_len = 8, cuda_graph_max_total_num_tokens = None,
      cuda_graph_start_loc = None, cuda_graph_attn_logits = None\<rparr>"

definition int32_tensor :: "int list \<Rightarrow> int_tensor" where
  "int32_tensor xs = \<lparr>dtype = Int32, elems = xs\<rparr>"

definition decode_batch :: "int list \<Rightarrow> int list option \<Rightarrow> forward_batch" where
  "decode_batch lens ix =
     \<lparr>forward_mode = DECODE,
      req_pool_indices = int32_tensor (map int [0 ..< length lens]),
      seq_lens = int32_tensor lens,
      extend_prefix_lens = int32_tensor [], extend_seq_lens = int32_tensor [],
      extend_start_loc = int32_tensor [], local_seq_indices = ix\<rparr>"

definition extend_batch :: "int list \<Rightarrow> int list \<Rightarrow> int list option \<Rightarrow> forward_batch" where
  "extend_batch lens prefix ix =
     \<lparr>forward_mode = EXTEND,
      req_pool_indices = int32_tensor (map int [0 ..< length lens]),
      seq_lens = int32_tensor lens,
      extend_prefix_lens = int32_tensor prefix,
      extend_seq_lens = int32_tensor (map2 (-) lens prefix),
      extend_start_loc = int32_tensor (butlast (0 # cumsum_from 0 (map2 (-) lens prefix))),
      local_seq_indices = ix\<rparr>"

text \<open>The graph state for at most \<open>max_bs\<close> requests, allocated in the example store.\<close>

definition example_graph_state :: "int \<Rightarrow> backend \<times> heap" where
  "example_graph_state max_bs = state_of (init_cuda_graph_state example_backend example_heap max_bs)"

text \<open>The graph state for two requests after a replay with the lengths \<open>[5, 1]\<close>.\<close>

definition example_replayed_state :: "backend \<times> heap" where
  "example_replayed_state =
     state_of (init_forward_metadata_replay_cuda_graph (fst (example_graph_state 2))
       (snd (example_graph_state 2)) 2 (int32_tensor [0, 1]) (int32_tensor [5, 1]))"

text \<open>
  \<^verbatim>\<open>init_forward_metadata\<close> called twice in a row on the decode batch with lengths
  \<open>[4, 1, 7]\<close>: the state after the first call, and the state after the second.
\<close>

definition first_run :: "backend \<times> heap" where
  "first_run =
     state_of (init_forward_metadata example_backend example_heap (decode_batch [4, 1, 7] None))"

definition second_run :: "backend \<times> heap" where
  "second_run =
     state_of (init_forward_metadata (fst first_run) (snd first_run) (decode_batch [4, 1, 7] None))"

section \<open>The backend as a state machine\<close>

text \<open>
  The four methods that change the backend or the store, as calls on a state, and the
  states that a backend built by \<^verbatim>\<open>__init__\<close> reaches through them.  A call that raises
  leaves the state it had reached.
\<close>

datatype call =
    InitForwardMetadata forward_batch
  | InitCudaGraphState int
  | CaptureCudaGraph int int_tensor int_tensor
  | ReplayCudaGraph int int_tensor int_tensor

fun run :: "call \<Rightarrow> backend \<times> heap \<Rightarrow> (backend \<times> heap) outcome" where
  "run (InitForwardMetadata fb) (self, h) = init_forward_metadata self h fb"
| "run (InitCudaGraphState max_bs) (self, h) = init_cuda_graph_state self h max_bs"
| "run (CaptureCudaGraph bs pool_indices sl) (self, h) =
     init_forward_metadata_capture_cuda_graph self h bs pool_indices sl"
| "run (ReplayCudaGraph bs pool_indices sl) (self, h) =
     init_forward_metadata_replay_cuda_graph self h bs pool_indices sl"

inductive reachable :: "backend \<times> heap \<Rightarrow> bool" where
  start: "init d mr = Inr self \<Longrightarrow> reachable (self, h)"
| step: "reachable s \<Longrightarrow> reachable (state_of (run c s))"

definition metadata_ok :: "backend \<Rightarrow> bool" where
  "metadata_ok self =
     (case forward_metadata self of None \<Rightarrow> True | Some md \<Rightarrow> mode_exclusive md)"

section \<open>Conversions between element types\<close>

lemma cast_id: "representable dt x \<Longrightarrow> cast dt x = x"
  by (cases dt) (auto simp: cast_def wrap_signed_def representable_def)

lemma cast_representable: "representable dt (cast dt x)"
  by (cases dt) (auto simp: cast_def wrap_signed_def representable_def)

lemma cast_0 [simp]: "cast dt 0 = 0"
  by (cases dt) (simp_all add: cast_def wrap_signed_def)

lemma cast64_mod32: "cast Int64 x mod 2 ^ 32 = x mod 2 ^ 32"
proof -
  have d: "(2::int) ^ 32 dvd 2 ^ 64" by (simp add: le_imp_power_dvd)
  have "cast Int64 x mod 2 ^ 32 = ((x + 2 ^ 63) mod 2 ^ 64 - 2 ^ 63) mod 2 ^ 32"
    by (simp add: cast_def wrap_signed_def)
  also have "\<dots> = ((x + 2 ^ 63) mod 2 ^ 64 mod 2 ^ 32 - 2 ^ 63 mod 2 ^ 32) mod 2 ^ 32"
    by (simp only: mod_diff_eq)
  also have "\<dots> = ((x + 2 ^ 63) mod 2 ^ 32 - 2 ^ 63 mod 2 ^ 32) mod 2 ^ 32"
    by (simp only: mod_mod_cancel [OF d])
  also have "\<dots> = (x + 2 ^ 63 - 2 ^ 63) mod 2 ^ 32"
    by (simp only: mod_diff_eq)
  finally show ?thesis by simp
qed

lemma cast32_cong:
  assumes "x mod 2 ^ 32 = y mod 2 ^ 32"
  shows "cast Int32 x = cast Int32 y"
proof -
  have "(x + 2 ^ 31) mod 2 ^ 32 = (x mod 2 ^ 32 + 2 ^ 31) mod 2 ^ 32"
    by (simp only: mod_add_left_eq)
  also have "\<dots> = (y + 2 ^ 31) mod 2 ^ 32"
    by (simp only: assms mod_add_left_eq)
  finally show ?thesis by (simp add: cast_def wrap_signed_def)
qed

text \<open>Narrowing an int64 running sum to the table's element type loses nothing more
  than narrowing the exact sum does.\<close>

lemma cast_cast64: "cast dt (cast Int64 x) = cast dt x"
proof (cases dt)
  case Int32
  have "cast Int32 (cast Int64 x) = cast Int32 x"
    by (rule cast32_cong) (rule cast64_mod32)
  with Int32 show ?thesis by simp
next
  case Int64
  have "representable Int64 (cast Int64 x)" by (rule cast_representable)
  with Int64 show ?thesis by (simp add: cast_id)
qed

lemma cast64_add: "cast Int64 (cast Int64 a + x) = cast Int64 (a + x)"
  by (simp add: cast_def wrap_signed_def) presburger

section \<open>Cumulative sums and slices\<close>

lemma cumsum_from_length [simp]: "length (cumsum_from acc xs) = length xs"
  by (induction xs arbitrary: acc) simp_all

lemma cumsum_from_nth:
  "i < length xs \<Longrightarrow> cumsum_from acc xs ! i = cast Int64 (acc + sum_list (take (Suc i) xs))"
proof (induction xs arbitrary: acc i)
  case Nil
  then show ?case by simp
next
  case (Cons x xs)
  show ?case
  proof (cases i)
    case 0
    then show ?thesis by simp
  next
    case (Suc j)
    with Cons.prems have "j < length xs" by simp
    then have "cumsum_from (cast Int64 (acc + x)) xs ! j
        = cast Int64 (cast Int64 (acc + x) + sum_list (take (Suc j) xs))"
      by (rule Cons.IH)
    also have "\<dots> = cast Int64 (acc + x + sum_list (take (Suc j) xs))"
      by (rule cast64_add)
    finally show ?thesis using Suc by (simp add: add.assoc)
  qed
qed

lemma getslice_butlast:
  "elems (getslice None (Some (- 1)) t) = take (length (elems t) - 1) (elems t)"
proof -
  have "nat (max 0 (int (length (elems t)) - 1)) = length (elems t) - 1" by arith
  then show ?thesis
    by (simp add: getslice_def slice_lo_def slice_hi_def slice_bound_def Let_def)
qed

lemma getslice_prefix:
  "0 \<le> m \<Longrightarrow> elems (getslice None (Some m) t) = take (nat m) (elems t)"
  by (auto simp: getslice_def slice_lo_def slice_hi_def slice_bound_def Let_def min_def)

text \<open>A zero in front of the narrowed cumulative sums of the first \<open>m\<close> lengths is the
  table of the narrowed sums of the first \<open>0, 1, ..., m\<close> lengths.\<close>

lemma prefix_offsets:
  assumes "m \<le> length xs"
  shows "0 # map (cast dt) (cumsum_from 0 (take m xs))
           = map (\<lambda>i. cast dt (sum_list (take i xs))) [0 ..< Suc m]"
proof (rule nth_equalityI)
  show "length (0 # map (cast dt) (cumsum_from 0 (take m xs)))
          = length (map (\<lambda>i. cast dt (sum_list (take i xs))) [0 ..< Suc m])"
    using assms by simp
next
  fix i
  assume "i < length (0 # map (cast dt) (cumsum_from 0 (take m xs)))"
  with assms have i: "i < Suc m" by simp
  show "(0 # map (cast dt) (cumsum_from 0 (take m xs))) ! i
          = map (\<lambda>i. cast dt (sum_list (take i xs))) [0 ..< Suc m] ! i"
  proof (cases i)
    case 0
    then show ?thesis by (simp add: upt_rec [of 0])
  next
    case (Suc j)
    with i assms have j: "j < length (take m xs)" by simp
    have "cumsum_from 0 (take m xs) ! j = cast Int64 (0 + sum_list (take (Suc j) (take m xs)))"
      using j by (rule cumsum_from_nth)
    moreover have "take (Suc j) (take m xs) = take (Suc j) xs"
      using Suc i by (simp add: min_def)
    ultimately have "cast dt (cumsum_from 0 (take m xs) ! j) = cast dt (sum_list (take (Suc j) xs))"
      by (simp add: cast_cast64)
    moreover have "map (\<lambda>i. cast dt (sum_list (take i xs))) [0 ..< Suc m] ! i
                     = cast dt (sum_list (take i xs))"
      using i by (simp only: nth_map_upt) simp
    ultimately show ?thesis using Suc j by simp
  qed
qed

lemma setslice_from_1:
  assumes "length (elems src) = n - 1"
  shows "setslice (Some 1) None \<lparr>dtype = dt, elems = replicate n 0\<rparr> src
           = Inr \<lparr>dtype = dt, elems = (if n = 0 then [] else 0 # map (cast dt) (elems src))\<rparr>"
  using assms
  by (cases n) (simp_all add: setslice_def slice_lo_def slice_hi_def slice_bound_def Let_def)

lemma setslice_1_to:
  assumes "1 \<le> b" and "nat b \<le> n" and "length (elems src) = nat b - 1"
  shows "setslice (Some 1) (Some b) \<lparr>dtype = dt, elems = replicate n 0\<rparr> src
           = Inr \<lparr>dtype = dt, elems = 0 # map (cast dt) (elems src) @ replicate (n - nat b) 0\<rparr>"
proof -
  from assms obtain k where n: "n = Suc k" by (cases n) auto
  have lo: "slice_lo n (Some 1) = 1" using n by (simp add: slice_lo_def slice_bound_def)
  have hi: "slice_hi n (Some b) = nat b" using assms by (simp add: slice_hi_def slice_bound_def)
  have t: "take 1 (replicate n (0::int)) = [0]" using n by simp
  have s: "Suc (nat b - 1) = nat b" using assms by simp
  have "setslice (Some 1) (Some b) \<lparr>dtype = dt, elems = replicate n 0\<rparr> src
          = Inr \<lparr>dtype = dt, elems = take 1 (replicate n 0) @ map (cast dt) (elems src)
                    @ drop (1 + (nat b - 1)) (replicate n 0)\<rparr>"
    using assms(3)
    by (simp add: setslice_def Let_def lo hi del: replicate.simps take_replicate drop_replicate)
  then show ?thesis by (simp only: t s plus_1_eq_Suc drop_replicate) simp
qed

lemma sum_list_take_nonneg: "\<forall>x\<in>set xs. (0::int) \<le> x \<Longrightarrow> 0 \<le> sum_list (take i xs)"
  by (induction xs arbitrary: i) (auto simp: take_Cons split: nat.splits intro: add_nonneg_nonneg)

lemma sum_list_take_le:
  assumes "\<forall>x\<in>set xs. (0::int) \<le> x"
  shows "sum_list (take i xs) \<le> sum_list xs"
proof -
  have "sum_list xs = sum_list (take i xs) + sum_list (drop i xs)"
    by (metis append_take_drop_id sum_list_append)
  moreover have "0 \<le> sum_list (drop i xs)"
    using assms by (meson in_set_dropD sum_list_nonneg)
  ultimately show ?thesis by simp
qed

lemma offsets_in_range:
  assumes "\<forall>x\<in>set xs. (0::int) \<le> x" and "sum_list xs < 2 ^ 31"
  shows "cast Int32 (sum_list (take i xs)) = sum_list (take i xs)"
proof (rule cast_id)
  have "0 \<le> sum_list (take i xs)" using assms(1) by (rule sum_list_take_nonneg)
  moreover have "sum_list (take i xs) \<le> sum_list xs" using assms(1) by (rule sum_list_take_le)
  ultimately show "representable Int32 (sum_list (take i xs))"
    using assms(2) by (simp add: representable_def)
qed

lemma is_offsets_prefix_sums:
  assumes "xs \<noteq> []"
  shows "is_offsets xs (map (\<lambda>i. sum_list (take i xs)) [0 ..< length xs])"
proof -
  let ?n = "length xs"
  have n: "0 < ?n" using assms by simp
  have step: "sum_list (take (Suc j) xs) = sum_list (take j xs) + xs ! j" if "j < ?n" for j
    using that by (simp add: take_Suc_conv_app_nth)
  have rec: "\<forall>i \<in> {1 ..< ?n}. map (\<lambda>i. sum_list (take i xs)) [0 ..< ?n] ! i
               = map (\<lambda>i. sum_list (take i xs)) [0 ..< ?n] ! (i - 1) + xs ! (i - 1)"
  proof
    fix i assume "i \<in> {1 ..< ?n}"
    then obtain j where i: "i = Suc j" and j: "Suc j < ?n" by (cases i) auto
    then show "map (\<lambda>i. sum_list (take i xs)) [0 ..< ?n] ! i
               = map (\<lambda>i. sum_list (take i xs)) [0 ..< ?n] ! (i - 1) + xs ! (i - 1)"
      using step [of j] by simp
  qed
  have "sum_list (take (?n - 1) xs) + xs ! (?n - 1) = sum_list xs"
    using step [of "?n - 1"] n by simp
  then have last: "map (\<lambda>i. sum_list (take i xs)) [0 ..< ?n] ! (?n - 1) + xs ! (?n - 1)
                     = sum_list xs"
    using n by simp
  have zero: "map (\<lambda>i. sum_list (take i xs)) [0 ..< ?n] ! 0 = 0" using n by simp
  show ?thesis unfolding is_offsets_def using rec last zero by simp
qed

section \<open>The decode branch in closed form\<close>

lemma decode_start_loc_eq:
  "decode_start_loc sl =
     Inr \<lparr>dtype = Int32,
          elems = map (\<lambda>i. cast Int32 (sum_list (take i (elems sl)))) [0 ..< length (elems sl)]\<rparr>"
proof (cases "elems sl = []")
  case True
  then show ?thesis
    by (simp add: decode_start_loc_def zeros_like_def setslice_def getslice_def cumsum_def
        slice_lo_def slice_hi_def slice_bound_def)
next
  case False
  let ?xs = "elems sl"
  let ?n = "length ?xs"
  have n: "Suc (?n - 1) = ?n" using False by (cases ?xs) simp_all
  have src: "elems (cumsum (getslice None (Some (- 1)) sl)) = cumsum_from 0 (take (?n - 1) ?xs)"
    by (simp add: cumsum_def getslice_butlast)
  then have len: "length (elems (cumsum (getslice None (Some (- 1)) sl))) = ?n - 1"
    by simp
  have "decode_start_loc sl =
          Inr \<lparr>dtype = Int32, elems = 0 # map (cast Int32) (cumsum_from 0 (take (?n - 1) ?xs))\<rparr>"
    unfolding decode_start_loc_def zeros_like_def
    using False by (simp add: setslice_from_1 [OF len] src)
  moreover have "0 # map (cast Int32) (cumsum_from 0 (take (?n - 1) ?xs))
      = map (\<lambda>i. cast Int32 (sum_list (take i ?xs))) [0 ..< Suc (?n - 1)]"
    by (rule prefix_offsets) simp
  ultimately show ?thesis by (simp only: n)
qed

lemma fold_max_Max: "fold max xs (x::int) = Max (set (x # xs))"
  using Max.set_eq_fold [of x xs] by simp

lemma torch_max_eq: "elems t \<noteq> [] \<Longrightarrow> torch_max t = Inr (Max (set (elems t)))"
  by (cases "elems t") (simp_all add: torch_max_def fold_max_Max)

lemma init_forward_metadata_decode:
  assumes "is_decode (forward_mode fb)"
    and "local_slice (local_seq_indices fb) (seq_lens fb) = Inr sl"
    and "0 \<le> torch_sum sl"
  shows "init_forward_metadata self h fb =
    Done (self\<lparr>forward_metadata :=
             Some (Some (next_ref h), Some (Suc (next_ref h)),
                   Some (if elems sl = [] then 0 else Max (set (elems sl))), None)\<rparr>,
          h\<lparr>cells := (cells h)
               (next_ref h \<mapsto> IntT \<lparr>dtype = Int32,
                  elems = map (\<lambda>i. cast Int32 (sum_list (take i (elems sl))))
                            [0 ..< length (elems sl)]\<rparr>,
                Suc (next_ref h) \<mapsto> FloatT \<lparr>fdtype = reduce_dtype self,
                  fshape = (num_head self, nat (torch_sum sl)),
                  fdata = map (uninit h (Suc (next_ref h)))
                            [0 ..< num_head self * nat (torch_sum sl)]\<rparr>),
             next_ref := Suc (Suc (next_ref h))\<rparr>)"
  using assms
  by (simp add: init_forward_metadata_def decode_start_loc_eq alloc_def torch_empty_def
      torch_max_eq Let_def)

lemma init_forward_metadata_decode_raises:
  assumes "is_decode (forward_mode fb)"
    and "local_slice (local_seq_indices fb) (seq_lens fb) = Inr sl"
    and "torch_sum sl < 0"
  shows "init_forward_metadata self h fb = Raised RuntimeError (self, h)"
  using assms
  by (simp add: init_forward_metadata_def decode_start_loc_eq alloc_def torch_empty_def Let_def)

lemma init_forward_metadata_slice_raises:
  assumes "local_slice (local_seq_indices fb) (seq_lens fb) = Inl e"
  shows "init_forward_metadata self h fb = Raised e (self, h)"
  using assms by (simp add: init_forward_metadata_def)

lemma decode_metadata_start_loc:
  assumes "is_decode (forward_mode fb)"
    and "local_slice (local_seq_indices fb) (seq_lens fb) = Inr sl"
    and "0 \<le> torch_sum sl"
  shows "metadata_start_loc (state_of (init_forward_metadata self h fb)) =
    Some \<lparr>dtype = Int32,
          elems = map (\<lambda>i. cast Int32 (sum_list (take i (elems sl)))) [0 ..< length (elems sl)]\<rparr>"
  by (simp add: init_forward_metadata_decode [OF assms] metadata_start_loc_def)

section \<open>Start offsets of the decode branch\<close>

text \<open>
  Claim C1, with the bound that the element type of \<open>start_loc\<close> needs.  For a batch in
  decode mode whose effective sequence lengths \<open>L\<close> (the lengths, re-sliced by the index
  list when there is one) are a non-empty list of non-negative numbers with a total below
  \<open>2 ^ 31\<close>, \<^verbatim>\<open>init_forward_metadata\<close> returns, and the int32 tensor \<open>start_loc\<close> that the
  stored metadata refers to satisfies \<open>start_loc[0] = 0\<close>,
  \<open>start_loc[i] = start_loc[i-1] + L[i-1]\<close> for every \<open>i > 0\<close>, and
  \<open>start_loc[last] + L[last] = sum(L)\<close>.
\<close>

theorem decode_start_loc_offsets:
  assumes "is_decode (forward_mode fb)"
    and "local_slice (local_seq_indices fb) (seq_lens fb) = Inr sl"
    and "elems sl \<noteq> []"
    and "\<forall>x \<in> set (elems sl). 0 \<le> x"
    and "sum_list (elems sl) < 2 ^ 31"
  shows "\<exists>s S. init_forward_metadata self h fb = Done s
            \<and> metadata_start_loc s = Some \<lparr>dtype = Int32, elems = S\<rparr>
            \<and> is_offsets (elems sl) S"
proof -
  let ?xs = "elems sl"
  let ?S = "map (\<lambda>i. sum_list (take i ?xs)) [0 ..< length ?xs]"
  have nonneg: "0 \<le> sum_list ?xs" using assms(4) by (simp add: sum_list_nonneg)
  then have "representable Int64 (sum_list ?xs)"
    using assms(5) by (simp add: representable_def)
  then have total: "torch_sum sl = sum_list ?xs" by (simp add: torch_sum_def cast_id)
  have S: "map (\<lambda>i. cast Int32 (sum_list (take i ?xs))) [0 ..< length ?xs] = ?S"
    using assms(4,5) by (simp add: offsets_in_range)
  have "0 \<le> torch_sum sl" using total nonneg by simp
  from init_forward_metadata_decode [OF assms(1,2) this, of self h]
  obtain s where run: "init_forward_metadata self h fb = Done s"
    and loc: "metadata_start_loc s = Some \<lparr>dtype = Int32, elems = ?S\<rparr>"
    by (simp add: metadata_start_loc_def S)
  moreover have "is_offsets ?xs ?S" using assms(3) by (rule is_offsets_prefix_sums)
  ultimately show ?thesis by blast
qed

text \<open>The theorem at the lengths \<open>[4, 1, 7]\<close> of the decode scenario.\<close>

theorem decode_start_loc_offsets_witness:
  "\<exists>s S. init_forward_metadata example_backend example_heap (decode_batch [4, 1, 7] None) = Done s
     \<and> metadata_start_loc s = Some \<lparr>dtype = Int32, elems = S\<rparr>
     \<and> is_offsets [4, 1, 7] S"
  using decode_start_loc_offsets
    [of "decode_batch [4, 1, 7] None" "int32_tensor [4, 1, 7]" example_backend example_heap]
  by (simp add: decode_batch_def int32_tensor_def local_slice_def)

text \<open>
  Without the bound the claim fails: \<open>start_loc\<close> is an int32 tensor, and for the int32
  lengths \<open>[2147483647, 1, 1]\<close> the third offset wraps around to \<open>- 2147483648\<close>, which
  is not the second offset plus the second length.
\<close>

theorem decode_start_loc_overflow_counterexample:
  "map_option elems (metadata_start_loc (state_of
      (init_forward_metadata example_backend example_heap (decode_batch [2147483647, 1, 1] None))))
     = Some [0, 2147483647, - 2147483648]
   \<and> \<not> is_offsets [2147483647, 1, 1] [0, 2147483647, - 2147483648]"
proof
  have "map (\<lambda>i. cast Int32 (sum_list (take i [2147483647, 1, 1])))
          [0 ..< length [2147483647, 1, 1 :: int]] = [0, 2147483647, - 2147483648]"
    by code_simp
  moreover have "0 \<le> torch_sum (int32_tensor [2147483647, 1, 1])"
    by (simp add: torch_sum_def int32_tensor_def cast_def wrap_signed_def)
  ultimately show "map_option elems (metadata_start_loc (state_of
      (init_forward_metadata example_backend example_heap (decode_batch [2147483647, 1, 1] None))))
     = Some [0, 2147483647, - 2147483648]"
    using decode_metadata_start_loc [where fb = "decode_batch [2147483647, 1, 1] None"
        and sl = "int32_tensor [2147483647, 1, 1]" and self = example_backend and h = example_heap]
    by (simp add: decode_batch_def int32_tensor_def local_slice_def)
  have "1 \<in> {1 ..< length [2147483647, 1, 1::int]}" by simp
  then show "\<not> is_offsets [2147483647, 1, 1] [0, 2147483647, - 2147483648]"
    unfolding is_offsets_def by (simp add: Ball_def)
qed

section \<open>The extend branch\<close>

lemma representable_diff:
  assumes "representable dt x" and "representable dt y" and "0 \<le> x" and "0 \<le> y"
  shows "representable dt (x - y)"
  using assms by (cases dt) (auto simp: representable_def)

lemma differences_do_not_wrap:
  assumes "\<forall>x \<in> set xs. 0 \<le> x \<and> representable da x"
    and "\<forall>y \<in> set ys. 0 \<le> y \<and> representable db y"
  shows "map2 (\<lambda>x y. cast (promote da db) (x - y)) xs ys = map2 (-) xs ys"
proof -
  have "cast (promote da db) (x - y) = x - y" if "(x, y) \<in> set (zip xs ys)" for x y
  proof (rule cast_id)
    from that have x: "x \<in> set xs" and y: "y \<in> set ys"
      by (auto dest: set_zip_leftD set_zip_rightD)
    have "representable (promote da db) x"
      using x assms(1) by (cases da; cases db) (auto simp: representable_def)
    moreover have "representable (promote da db) y"
      using y assms(2) by (cases da; cases db) (auto simp: representable_def)
    ultimately show "representable (promote da db) (x - y)"
      using x y assms by (intro representable_diff) auto
  qed
  then show ?thesis by auto
qed

text \<open>
  Claim C6.  For a batch in extend mode whose effective lengths \<open>L\<close> and prefix lengths
  \<open>P\<close> have the same size, \<^verbatim>\<open>init_forward_metadata\<close> stores the metadata
  \<open>(None, None, None, max_extend_len)\<close> and leaves the store alone; \<open>max_extend_len\<close> is
  the maximum of the tensor \<open>L - P\<close>, and 0 for the empty batch.  The entries of that
  tensor are the numbers \<open>L[i] - P[i]\<close> whenever the entries of \<open>L\<close> and \<open>P\<close> are
  lengths, that is non-negative values of their element types: the subtraction cannot wrap
  around then.
\<close>

theorem extend_max_extend_len:
  assumes "\<not> is_decode (forward_mode fb)"
    and "local_slice (local_seq_indices fb) (seq_lens fb) = Inr sl"
    and "local_slice (local_seq_indices fb) (extend_prefix_lens fb) = Inr pl"
    and "length (elems sl) = length (elems pl)"
  shows "init_forward_metadata self h fb =
           Done (self\<lparr>forward_metadata :=
                    Some (None, None, None,
                          Some (if elems sl = [] then 0
                                else Max (set (map2 (\<lambda>x y. cast (promote (dtype sl) (dtype pl)) (x - y))
                                                 (elems sl) (elems pl)))))\<rparr>, h)
       \<and> ((\<forall>x \<in> set (elems sl). 0 \<le> x \<and> representable (dtype sl) x)
            \<and> (\<forall>y \<in> set (elems pl). 0 \<le> y \<and> representable (dtype pl) y) \<longrightarrow>
          map2 (\<lambda>x y. cast (promote (dtype sl) (dtype pl)) (x - y)) (elems sl) (elems pl)
            = map2 (-) (elems sl) (elems pl))"
proof -
  let ?d = "map2 (\<lambda>x y. cast (promote (dtype sl) (dtype pl)) (x - y)) (elems sl) (elems pl)"
  have run: "init_forward_metadata self h fb =
           Done (self\<lparr>forward_metadata :=
                    Some (None, None, None, Some (if elems sl = [] then 0 else Max (set ?d)))\<rparr>, h)"
  proof (cases "elems sl = []")
    case True
    with assms(1-3) show ?thesis by (simp add: init_forward_metadata_def)
  next
    case False
    with assms(4) have ne: "elems pl \<noteq> []" and "?d \<noteq> []"
      by (cases "elems sl"; cases "elems pl"; simp)+
    then have mx: "torch_max \<lparr>dtype = promote (dtype sl) (dtype pl), elems = ?d\<rparr>
                     = Inr (Max (set ?d))"
      by (simp add: torch_max_eq)
    have sub: "tensor_sub sl pl = Inr \<lparr>dtype = promote (dtype sl) (dtype pl), elems = ?d\<rparr>"
      using assms(4) by (simp add: tensor_sub_def Let_def)
    have "init_forward_metadata self h fb =
            Done (self\<lparr>forward_metadata := Some (None, None, None, Some (Max (set ?d)))\<rparr>, h)"
      using False assms(1-3) by (simp add: init_forward_metadata_def sub mx del: set_map set_zip)
    with False show ?thesis by (simp del: set_map set_zip)
  qed
  have "?d = map2 (-) (elems sl) (elems pl)"
    if "(\<forall>x \<in> set (elems sl). 0 \<le> x \<and> representable (dtype sl) x)
          \<and> (\<forall>y \<in> set (elems pl). 0 \<le> y \<and> representable (dtype pl) y)"
    using that by (intro differences_do_not_wrap) auto
  with run show ?thesis by blast
qed

text \<open>The theorem at the extend scenario: lengths \<open>[10, 6]\<close>, prefix lengths \<open>[8, 6]\<close>.\<close>

theorem extend_max_extend_len_witness:
  "init_forward_metadata example_backend example_heap (extend_batch [10, 6] [8, 6] None) =
     Done (example_backend\<lparr>forward_metadata := Some (None, None, None, Some 2)\<rparr>, example_heap)
   \<and> map2 (\<lambda>x y. cast Int32 (x - y)) [10, 6] [8, 6] = map2 (-) [10, 6] [8, 6 :: int]"
  using extend_max_extend_len
    [of "extend_batch [10, 6] [8, 6] None" "int32_tensor [10, 6]" "int32_tensor [8, 6]"
        example_backend example_heap]
  by (simp add: extend_batch_def int32_tensor_def local_slice_def representable_def
      cast_def wrap_signed_def)

section \<open>The graph state and its replay in closed form\<close>

lemma store_store [simp]: "store a x (store a y h) = store a x h"
  by (simp add: store_def)

lemma init_cuda_graph_state_Done:
  assumes "0 \<le> max_bs"
  shows "init_cuda_graph_state self h max_bs =
    Done (self\<lparr>cuda_graph_max_total_num_tokens := Some (max_bs * int (cuda_graph_max_seq_len self)),
               cuda_graph_start_loc := Some (next_ref h),
               cuda_graph_attn_logits := Some (Suc (next_ref h))\<rparr>,
          h\<lparr>cells := (cells h)
               (next_ref h \<mapsto> IntT \<lparr>dtype = Int32, elems = replicate (nat max_bs) 0\<rparr>,
                Suc (next_ref h) \<mapsto> FloatT \<lparr>fdtype = reduce_dtype self,
                  fshape = (num_head self, nat (max_bs * int (cuda_graph_max_seq_len self))),
                  fdata = map (uninit h (Suc (next_ref h)))
                    [0 ..< num_head self * nat (max_bs * int (cuda_graph_max_seq_len self))]\<rparr>),
             next_ref := Suc (Suc (next_ref h))\<rparr>)"
proof -
  have "\<not> max_bs * int (cuda_graph_max_seq_len self) < 0"
    using assms by (simp add: not_less mult_nonneg_nonneg)
  then show ?thesis
    using assms
    by (simp add: init_cuda_graph_state_def torch_zeros_def torch_empty_def alloc_def Let_def)
qed

lemma init_cuda_graph_state_Raised:
  assumes "max_bs < 0"
  shows "init_cuda_graph_state self h max_bs =
    Raised RuntimeError
      (self\<lparr>cuda_graph_max_total_num_tokens := Some (max_bs * int (cuda_graph_max_seq_len self))\<rparr>, h)"
  using assms by (simp add: init_cuda_graph_state_def torch_zeros_def Let_def)

lemma example_graph_start_loc:
  "0 \<le> n \<Longrightarrow> graph_start_loc (example_graph_state n) = Some \<lparr>dtype = Int32, elems = replicate (nat n) 0\<rparr>"
  by (simp add: example_graph_state_def init_cuda_graph_state_Done graph_start_loc_def)

lemma slice_bound_le: "slice_bound n i \<le> n"
  unfolding slice_bound_def by (cases "i < 0") auto

lemma slice_lo_le: "slice_lo n lo \<le> n"
  by (cases lo) (simp_all add: slice_lo_def slice_bound_le)

lemma slice_hi_le: "slice_hi n hi \<le> n"
  by (cases hi) (simp_all add: slice_hi_def slice_bound_le)

lemma setslice_shape:
  assumes "setslice lo hi dst src = Inr t"
  shows "dtype t = dtype dst \<and> length (elems t) = length (elems dst)"
proof -
  let ?n = "length (elems dst)"
  have "slice_lo ?n lo \<le> ?n" and "slice_hi ?n hi \<le> ?n"
    by (rule slice_lo_le, rule slice_hi_le)
  then show ?thesis
    using assms by (auto simp: setslice_def Let_def split: if_splits)
qed

lemma replay_unfold:
  assumes "cuda_graph_start_loc self = Some a" and "cells h a = Some (IntT tbl)"
  shows "init_forward_metadata_replay_cuda_graph self h b rpi L =
    (case setslice (Some 1) (Some b) (zero_inplace tbl) (cumsum (getslice None (Some (b - 1)) L)) of
       Inl e \<Rightarrow> Raised e (self, store a (IntT (zero_inplace tbl)) h)
     | Inr t \<Rightarrow> Done (self, store a (IntT t) h))"
  using assms
  by (simp add: init_forward_metadata_replay_cuda_graph_def Let_def split: sum.splits)

lemma replay_frame:
  assumes "cuda_graph_start_loc self = Some a" and "cells h a = Some (IntT tbl)"
  shows "\<exists>t. state_of (init_forward_metadata_replay_cuda_graph self h b rpi L)
                = (self, store a (IntT t) h)
            \<and> dtype t = dtype tbl \<and> length (elems t) = length (elems tbl)"
proof (cases "setslice (Some 1) (Some b) (zero_inplace tbl) (cumsum (getslice None (Some (b - 1)) L))")
  case (Inl e)
  have "dtype (zero_inplace tbl) = dtype tbl \<and> length (elems (zero_inplace tbl)) = length (elems tbl)"
    by (simp add: zero_inplace_def)
  with Inl show ?thesis
    by (simp add: replay_unfold [OF assms]) blast
next
  case (Inr t)
  from setslice_shape [OF this] Inr show ?thesis
    by (simp add: replay_unfold [OF assms] zero_inplace_def) blast
qed

lemma zero_inplace_eq: "zero_inplace t = \<lparr>dtype = dtype t, elems = replicate (length (elems t)) 0\<rparr>"
  by (simp add: zero_inplace_def)

lemma replay_in_range:
  assumes "cuda_graph_start_loc self = Some a" and "cells h a = Some (IntT tbl)"
    and "1 \<le> b" and "nat b \<le> length (elems tbl)" and "nat b - 1 \<le> length (elems L)"
  shows "init_forward_metadata_replay_cuda_graph self h b rpi L =
    Done (self, store a (IntT \<lparr>dtype = dtype tbl,
       elems = map (\<lambda>i. cast (dtype tbl) (sum_list (take i (elems L)))) [0 ..< nat b]
               @ replicate (length (elems tbl) - nat b) 0\<rparr>) h)"
proof -
  let ?src = "cumsum (getslice None (Some (b - 1)) L)"
  have b1: "nat (b - 1) = nat b - 1" using assms(3) by simp
  have src: "elems ?src = cumsum_from 0 (take (nat b - 1) (elems L))"
    using assms(3) by (simp add: cumsum_def getslice_prefix b1)
  then have len: "length (elems ?src) = nat b - 1" using assms(5) by simp
  have "0 # map (cast (dtype tbl)) (cumsum_from 0 (take (nat b - 1) (elems L)))
          = map (\<lambda>i. cast (dtype tbl) (sum_list (take i (elems L)))) [0 ..< Suc (nat b - 1)]"
    using assms(5) by (rule prefix_offsets)
  moreover have "Suc (nat b - 1) = nat b" using assms(3) by simp
  ultimately have offs: "0 # map (cast (dtype tbl)) (elems ?src)
          = map (\<lambda>i. cast (dtype tbl) (sum_list (take i (elems L)))) [0 ..< nat b]"
    by (simp only: src)
  have "setslice (Some 1) (Some b) (zero_inplace tbl) ?src
          = Inr \<lparr>dtype = dtype tbl, elems = 0 # map (cast (dtype tbl)) (elems ?src)
                   @ replicate (length (elems tbl) - nat b) 0\<rparr>"
    unfolding zero_inplace_eq by (rule setslice_1_to [OF assms(3,4) len])
  then have "setslice (Some 1) (Some b) (zero_inplace tbl) ?src
          = Inr \<lparr>dtype = dtype tbl,
                 elems = map (\<lambda>i. cast (dtype tbl) (sum_list (take i (elems L)))) [0 ..< nat b]
                   @ replicate (length (elems tbl) - nat b) 0\<rparr>"
    using offs by (metis append_Cons)
  then show ?thesis by (simp add: replay_unfold [OF assms(1,2)])
qed

lemma replay_over_capacity:
  assumes "cuda_graph_start_loc self = Some a" and "cells h a = Some (IntT tbl)"
    and "length (elems tbl) < nat b" and "3 \<le> b" and "nat b - 1 \<le> length (elems L)"
  shows "init_forward_metadata_replay_cuda_graph self h b rpi L =
    Raised RuntimeError (self, store a (IntT (zero_inplace tbl)) h)"
proof -
  let ?src = "cumsum (getslice None (Some (b - 1)) L)"
  have b1: "nat (b - 1) = nat b - 1" using assms(4) by simp
  have "elems ?src = cumsum_from 0 (take (nat b - 1) (elems L))"
    using assms(4) by (simp add: cumsum_def getslice_prefix b1)
  then have len: "length (elems ?src) = nat b - 1" using assms(5) by simp
  let ?n = "length (elems tbl)"
  have k: "slice_hi ?n (Some b) - slice_lo ?n (Some 1) = ?n - 1"
    using assms(3,4) by (auto simp: slice_hi_def slice_lo_def slice_bound_def min_def)
  have "nat b - 1 \<noteq> ?n - 1" and "nat b - 1 \<noteq> 1" using assms(3,4) by auto
  then have "setslice (Some 1) (Some b) (zero_inplace tbl) ?src = Inl RuntimeError"
    using len k by (simp add: setslice_def zero_inplace_def Let_def)
  then show ?thesis by (simp add: replay_unfold [OF assms(1,2)])
qed

section \<open>The empty batch\<close>

lemma gather_length: "gather xs ix = Inr ys \<Longrightarrow> length ys = length ix"
  by (induction ix arbitrary: ys) (auto simp: Let_def split: if_splits sum.splits)

lemma local_slice_empty:
  assumes "local_slice ix t = Inr sl" and "elems sl = []"
  shows "local_slice ix u = Inr (u\<lparr>elems := (case ix of None \<Rightarrow> elems u | Some i \<Rightarrow> [])\<rparr>)"
proof (cases ix)
  case None
  then show ?thesis by (simp add: local_slice_def)
next
  case (Some i)
  with assms obtain ys where "gather (elems t) i = Inr ys" and "ys = []"
    by (auto simp: local_slice_def index_tensor_def split: sum.splits)
  then have "i = []" by (auto dest: gather_length)
  with Some show ?thesis by (simp add: local_slice_def index_tensor_def)
qed

lemma replay_empty:
  assumes "cuda_graph_start_loc self = Some a" and "cells h a = Some (IntT tbl)"
    and "elems L = []"
  shows "init_forward_metadata_replay_cuda_graph self h 0 rpi L =
           Done (self, store a (IntT (zero_inplace tbl)) h)"
proof -
  have "elems (cumsum (getslice None (Some (0 - 1)) L)) = []"
    using assms(3) by (simp add: cumsum_def getslice_def Let_def)
  then have "setslice (Some 1) (Some 0) (zero_inplace tbl) (cumsum (getslice None (Some (0 - 1)) L))
               = Inr (zero_inplace tbl)"
    by (simp add: setslice_def Let_def slice_lo_def slice_hi_def slice_bound_def zero_inplace_def
        replicate_add [symmetric])
  then show ?thesis by (simp add: replay_unfold [OF assms(1,2)])
qed

text \<open>
  Claim C4.  For the empty batch (the effective list of sequence lengths has no entry)
  nothing raises: in decode mode \<^verbatim>\<open>init_forward_metadata\<close> returns with
  \<open>max_seq_len = 0\<close>, an empty \<open>start_loc\<close> and an accumulator of shape
  \<open>(num_head, 0)\<close> without elements; in extend mode it returns with
  \<open>max_extend_len = 0\<close>; and \<^verbatim>\<open>init_forward_metadata_replay_cuda_graph\<close> with batch
  size 0 and the empty lengths returns, leaving the table of the graph state zeroed.
\<close>

theorem empty_batch_is_no_op:
  assumes "local_slice (local_seq_indices fb) (seq_lens fb) = Inr sl" and "elems sl = []"
  shows "(is_decode (forward_mode fb) \<longrightarrow>
            (\<exists>s. init_forward_metadata self h fb = Done s
               \<and> metadata_max_seq_len s = Some 0 \<and> metadata_max_extend_len s = None
               \<and> metadata_start_loc s = Some \<lparr>dtype = Int32, elems = []\<rparr>
               \<and> metadata_attn_logits s =
                    Some \<lparr>fdtype = reduce_dtype self, fshape = (num_head self, 0), fdata = []\<rparr>))
       \<and> (\<not> is_decode (forward_mode fb) \<longrightarrow>
            init_forward_metadata self h fb =
              Done (self\<lparr>forward_metadata := Some (None, None, None, Some 0)\<rparr>, h))
       \<and> (cuda_graph_start_loc self = Some a \<and> cells h a = Some (IntT tbl) \<longrightarrow>
            init_forward_metadata_replay_cuda_graph self h 0 rpi sl =
              Done (self, store a (IntT (zero_inplace tbl)) h))"
proof (intro conjI impI)
  assume d: "is_decode (forward_mode fb)"
  have "0 \<le> torch_sum sl" using assms(2) by (simp add: torch_sum_def)
  from init_forward_metadata_decode [OF d assms(1) this, of self h] assms(2)
  show "\<exists>s. init_forward_metadata self h fb = Done s
               \<and> metadata_max_seq_len s = Some 0 \<and> metadata_max_extend_len s = None
               \<and> metadata_start_loc s = Some \<lparr>dtype = Int32, elems = []\<rparr>
               \<and> metadata_attn_logits s =
                    Some \<lparr>fdtype = reduce_dtype self, fshape = (num_head self, 0), fdata = []\<rparr>"
    by (simp add: metadata_max_seq_len_def metadata_max_extend_len_def metadata_start_loc_def
        metadata_attn_logits_def torch_sum_def)
next
  assume e: "\<not> is_decode (forward_mode fb)"
  from local_slice_empty [OF assms, of "extend_prefix_lens fb"]
  show "init_forward_metadata self h fb =
          Done (self\<lparr>forward_metadata := Some (None, None, None, Some 0)\<rparr>, h)"
    using e assms by (simp add: init_forward_metadata_def)
next
  assume "cuda_graph_start_loc self = Some a \<and> cells h a = Some (IntT tbl)"
  then show "init_forward_metadata_replay_cuda_graph self h 0 rpi sl =
          Done (self, store a (IntT (zero_inplace tbl)) h)"
    using assms(2) by (simp add: replay_empty)
qed

lemma example_graph_state_eq:
  "0 \<le> n \<Longrightarrow> example_graph_state n =
     (example_backend\<lparr>cuda_graph_max_total_num_tokens := Some (n * 8),
         cuda_graph_start_loc := Some 0, cuda_graph_attn_logits := Some 1\<rparr>,
      example_heap\<lparr>cells := (cells example_heap)
         (0 \<mapsto> IntT \<lparr>dtype = Int32, elems = replicate (nat n) 0\<rparr>,
          1 \<mapsto> FloatT \<lparr>fdtype = Float16, fshape = (2, nat (n * 8)),
                 fdata = map (\<lambda>i. 1) [0 ..< 2 * nat (n * 8)]\<rparr>),
        next_ref := 2\<rparr>)"
  by (simp add: example_graph_state_def init_cuda_graph_state_Done)
     (simp add: example_backend_def example_heap_def)

text \<open>The theorem at the empty decode batch, the empty extend batch with an empty index
  list, and a graph state for two requests.\<close>

theorem empty_batch_is_no_op_witness:
  "(\<exists>s. init_forward_metadata example_backend example_heap (decode_batch [] None) = Done s
       \<and> metadata_max_seq_len s = Some 0 \<and> metadata_max_extend_len s = None
       \<and> metadata_start_loc s = Some \<lparr>dtype = Int32, elems = []\<rparr>
       \<and> metadata_attn_logits s = Some \<lparr>fdtype = Float16, fshape = (2, 0), fdata = []\<rparr>)
   \<and> init_forward_metadata example_backend example_heap (extend_batch [] [] (Some [])) =
       Done (example_backend\<lparr>forward_metadata := Some (None, None, None, Some 0)\<rparr>, example_heap)
   \<and> init_forward_metadata_replay_cuda_graph (fst (example_graph_state 2))
         (snd (example_graph_state 2)) 0 (int32_tensor []) (int32_tensor []) =
       Done (fst (example_graph_state 2),
             store 0 (IntT (int32_tensor [0, 0])) (snd (example_graph_state 2)))"
proof (intro conjI)
  show "\<exists>s. init_forward_metadata example_backend example_heap (decode_batch [] None) = Done s
       \<and> metadata_max_seq_len s = Some 0 \<and> metadata_max_extend_len s = None
       \<and> metadata_start_loc s = Some \<lparr>dtype = Int32, elems = []\<rparr>
       \<and> metadata_attn_logits s = Some \<lparr>fdtype = Float16, fshape = (2, 0), fdata = []\<rparr>"
    using empty_batch_is_no_op [of "decode_batch [] None" "int32_tensor []" example_backend example_heap]
    by (simp add: decode_batch_def int32_tensor_def local_slice_def example_backend_def)
  show "init_forward_metadata example_backend example_heap (extend_batch [] [] (Some [])) =
       Done (example_backend\<lparr>forward_metadata := Some (None, None, None, Some 0)\<rparr>, example_heap)"
    using empty_batch_is_no_op [of "extend_batch [] [] (Some [])" "int32_tensor []" example_backend example_heap]
    by (simp add: extend_batch_def int32_tensor_def local_slice_def index_tensor_def)
  show "init_forward_metadata_replay_cuda_graph (fst (example_graph_state 2))
         (snd (example_graph_state 2)) 0 (int32_tensor []) (int32_tensor []) =
       Done (fst (example_graph_state 2),
             store 0 (IntT (int32_tensor [0, 0])) (snd (example_graph_state 2)))"
    using empty_batch_is_no_op [where fb = "decode_batch [] None" and sl = "int32_tensor []"
        and self = "fst (example_graph_state 2)" and a = 0 and h = "snd (example_graph_state 2)"
        and tbl = "\<lparr>dtype = Int32, elems = replicate (nat 2) 0\<rparr>" and rpi = "int32_tensor []"]
    by (simp add: example_graph_state_eq decode_batch_def int32_tensor_def local_slice_def
        zero_inplace_def numeral_2_eq_2)
qed

section \<open>The stored metadata belongs to one mode\<close>

lemma init_forward_metadata_shape:
  assumes "init_forward_metadata self h fb = Done s"
  shows "(is_decode (forward_mode fb) \<and>
            (\<exists>r1 r2 m. forward_metadata (fst s) = Some (Some r1, Some r2, Some m, None)))
       \<or> (\<not> is_decode (forward_mode fb) \<and>
            (\<exists>m. forward_metadata (fst s) = Some (None, None, None, Some m)))"
  using assms
  by (auto simp: init_forward_metadata_def alloc_def Let_def split: sum.splits if_splits)

lemma init_forward_metadata_assigns:
  assumes "init_forward_metadata self h fb = Done s"
  shows "\<exists>md. forward_metadata (fst s) = Some md \<and> mode_exclusive md"
  using init_forward_metadata_shape [OF assms] by (elim disjE conjE exE) simp_all

lemma init_forward_metadata_raised:
  assumes "init_forward_metadata self h fb = Raised e s"
  shows "s = (self, h)"
  using assms
  by (auto simp: init_forward_metadata_def alloc_def Let_def split: sum.splits if_splits)

lemma capture_shape:
  assumes "init_forward_metadata_capture_cuda_graph self h bs rpi sl = Done s"
  shows "\<exists>r1 r2 m. forward_metadata (fst s) = Some (Some r1, Some r2, Some m, None)"
  using assms
  by (auto simp: init_forward_metadata_capture_cuda_graph_def split: option.splits)

lemma capture_assigns:
  assumes "init_forward_metadata_capture_cuda_graph self h bs rpi sl = Done s"
  shows "\<exists>md. forward_metadata (fst s) = Some md \<and> mode_exclusive md"
  using capture_shape [OF assms] by (elim exE) simp

lemma capture_raised:
  assumes "init_forward_metadata_capture_cuda_graph self h bs rpi sl = Raised e s"
  shows "s = (self, h)"
  using assms
  by (auto simp: init_forward_metadata_capture_cuda_graph_def split: option.splits)

lemma init_cuda_graph_state_metadata:
  "forward_metadata (fst (state_of (init_cuda_graph_state self h max_bs))) = forward_metadata self"
  by (cases "0 \<le> max_bs") (simp_all add: init_cuda_graph_state_Done init_cuda_graph_state_Raised)

lemma replay_backend:
  "fst (state_of (init_forward_metadata_replay_cuda_graph self h bs rpi sl)) = self"
  by (auto simp: init_forward_metadata_replay_cuda_graph_def Let_def
      split: option.splits obj.splits sum.splits)

lemma run_metadata_ok:
  assumes "metadata_ok (fst s)"
  shows "metadata_ok (fst (state_of (run c s)))"
proof (cases s)
  case (Pair self h)
  show ?thesis
  proof (cases c)
    case (InitForwardMetadata fb)
    show ?thesis
    proof (cases "init_forward_metadata self h fb")
      case (Done s')
      with init_forward_metadata_assigns [OF Done] show ?thesis
        using Pair InitForwardMetadata by (auto simp: metadata_ok_def)
    next
      case (Raised e s')
      with init_forward_metadata_raised [OF Raised] show ?thesis
        using Pair InitForwardMetadata assms by simp
    qed
  next
    case (InitCudaGraphState max_bs)
    then show ?thesis
      using Pair assms by (simp add: metadata_ok_def init_cuda_graph_state_metadata)
  next
    case (CaptureCudaGraph bs rpi sl)
    show ?thesis
    proof (cases "init_forward_metadata_capture_cuda_graph self h bs rpi sl")
      case (Done s')
      with capture_assigns [OF Done] show ?thesis
        using Pair CaptureCudaGraph by (auto simp: metadata_ok_def)
    next
      case (Raised e s')
      with capture_raised [OF Raised] show ?thesis
        using Pair CaptureCudaGraph assms by simp
    qed
  next
    case (ReplayCudaGraph bs rpi sl)
    then show ?thesis
      using Pair assms by (simp add: replay_backend)
  qed
qed

lemma init_metadata_ok: "init d mr = Inr self \<Longrightarrow> metadata_ok self"
  by (auto simp: init_def metadata_ok_def split: if_splits)

lemma reachable_metadata_ok: "reachable s \<Longrightarrow> metadata_ok (fst s)"
  by (induction rule: reachable.induct) (simp_all add: init_metadata_ok run_metadata_ok)

text \<open>
  Claim C10.  Whenever \<^verbatim>\<open>init_forward_metadata\<close> (in either mode) or
  \<^verbatim>\<open>init_forward_metadata_capture_cuda_graph\<close> returns, the stored tuple has either its
  three decode fields set and \<open>max_extend_len = None\<close>, or the three decode fields
  \<open>None\<close> and \<open>max_extend_len\<close> set.  As the other methods and a raise leave the tuple
  alone, every state a backend reaches holds no tuple yet or one of these two kinds.
\<close>

theorem metadata_mode_exclusive:
  "(init_forward_metadata self h fb = Done s \<longrightarrow>
      (\<exists>md. forward_metadata (fst s) = Some md \<and> mode_exclusive md))
   \<and> (init_forward_metadata_capture_cuda_graph self h bs rpi sl = Done s' \<longrightarrow>
      (\<exists>md. forward_metadata (fst s') = Some md \<and> mode_exclusive md))
   \<and> (reachable r \<longrightarrow> metadata_ok (fst r))"
proof (intro conjI impI)
  assume "init_forward_metadata self h fb = Done s"
  then show "\<exists>md. forward_metadata (fst s) = Some md \<and> mode_exclusive md"
    by (rule init_forward_metadata_assigns)
next
  assume "init_forward_metadata_capture_cuda_graph self h bs rpi sl = Done s'"
  then show "\<exists>md. forward_metadata (fst s') = Some md \<and> mode_exclusive md"
    by (rule capture_assigns)
next
  assume "reachable r"
  then show "metadata_ok (fst r)" by (rule reachable_metadata_ok)
qed

lemma example_backend_init:
  "init (\<lambda>k. None) \<lparr>num_attention_heads = 2, tp_size = 1, context_len = 8\<rparr> = Inr example_backend"
  by (simp add: init_def dict_get_def example_backend_def)

text \<open>The theorem at a decode batch, at a capture on a graph state for two requests, and
  at the state reached by an extend batch.\<close>

theorem metadata_mode_exclusive_witness:
  "(\<exists>md. forward_metadata (fst (state_of
        (init_forward_metadata example_backend example_heap (decode_batch [4, 1, 7] None)))) = Some md
      \<and> mode_exclusive md)
   \<and> (\<exists>md. forward_metadata (fst (state_of
        (init_forward_metadata_capture_cuda_graph (fst (example_graph_state 2))
           (snd (example_graph_state 2)) 2 (int32_tensor [0, 1]) (int32_tensor [1, 1])))) = Some md
      \<and> mode_exclusive md)
   \<and> metadata_ok (fst (state_of
        (run (InitForwardMetadata (extend_batch [10, 6] [8, 6] None)) (example_backend, example_heap))))"
proof (intro conjI)
  have "0 \<le> torch_sum (int32_tensor [4, 1, 7])"
    by (simp add: torch_sum_def int32_tensor_def cast_def wrap_signed_def)
  then obtain s where s: "init_forward_metadata example_backend example_heap (decode_batch [4, 1, 7] None) = Done s"
    using init_forward_metadata_decode [where fb = "decode_batch [4, 1, 7] None"
        and sl = "int32_tensor [4, 1, 7]" and self = example_backend and h = example_heap]
    by (simp add: decode_batch_def local_slice_def)
  with metadata_mode_exclusive [of example_backend example_heap "decode_batch [4, 1, 7] None" s]
  show "\<exists>md. forward_metadata (fst (state_of
        (init_forward_metadata example_backend example_heap (decode_batch [4, 1, 7] None)))) = Some md
      \<and> mode_exclusive md"
    by simp
next
  obtain s' where s': "init_forward_metadata_capture_cuda_graph (fst (example_graph_state 2))
           (snd (example_graph_state 2)) 2 (int32_tensor [0, 1]) (int32_tensor [1, 1]) = Done s'"
    by (simp add: init_forward_metadata_capture_cuda_graph_def example_graph_state_eq)
  with metadata_mode_exclusive [where self = "fst (example_graph_state 2)"
      and h = "snd (example_graph_state 2)" and bs = 2 and rpi = "int32_tensor [0, 1]"
      and sl = "int32_tensor [1, 1]" and s' = s']
  show "\<exists>md. forward_metadata (fst (state_of
        (init_forward_metadata_capture_cuda_graph (fst (example_graph_state 2))
           (snd (example_graph_state 2)) 2 (int32_tensor [0, 1]) (int32_tensor [1, 1])))) = Some md
      \<and> mode_exclusive md"
    by simp
next
  have "reachable (example_backend, example_heap)"
    using example_backend_init by (rule reachable.start)
  then have "reachable (state_of
        (run (InitForwardMetadata (extend_batch [10, 6] [8, 6] None)) (example_backend, example_heap)))"
    by (rule reachable.step)
  with metadata_mode_exclusive [where r = "state_of
        (run (InitForwardMetadata (extend_batch [10, 6] [8, 6] None)) (example_backend, example_heap))"]
  show "metadata_ok (fst (state_of
        (run (InitForwardMetadata (extend_batch [10, 6] [8, 6] None)) (example_backend, example_heap))))"
    by simp
qed

section \<open>Capture refers to the buffers of the graph state\<close>

lemma init_forward_metadata_graph_fields:
  "cuda_graph_start_loc (fst (state_of (init_forward_metadata self h fb))) = cuda_graph_start_loc self
   \<and> cuda_graph_attn_logits (fst (state_of (init_forward_metadata self h fb))) = cuda_graph_attn_logits self
   \<and> cuda_graph_max_seq_len (fst (state_of (init_forward_metadata self h fb))) = cuda_graph_max_seq_len self"
proof (cases "init_forward_metadata self h fb")
  case (Done s)
  then show ?thesis
    by (auto simp: init_forward_metadata_def alloc_def Let_def split: sum.splits if_splits)
next
  case (Raised e s)
  with init_forward_metadata_raised [OF Raised] show ?thesis by simp
qed

lemma capture_graph_fields:
  "cuda_graph_start_loc (fst (state_of (init_forward_metadata_capture_cuda_graph self h bs rpi sl))) = cuda_graph_start_loc self
   \<and> cuda_graph_attn_logits (fst (state_of (init_forward_metadata_capture_cuda_graph self h bs rpi sl))) = cuda_graph_attn_logits self
   \<and> cuda_graph_max_seq_len (fst (state_of (init_forward_metadata_capture_cuda_graph self h bs rpi sl))) = cuda_graph_max_seq_len self"
  by (simp add: init_forward_metadata_capture_cuda_graph_def split: option.splits)

lemma init_cuda_graph_state_max_seq_len:
  "cuda_graph_max_seq_len (fst (state_of (init_cuda_graph_state self h max_bs))) = cuda_graph_max_seq_len self"
  by (cases "0 \<le> max_bs") (simp_all add: init_cuda_graph_state_Done init_cuda_graph_state_Raised)

lemma run_graph_fields:
  "cuda_graph_max_seq_len (fst (state_of (run c s))) = cuda_graph_max_seq_len (fst s)
   \<and> ((\<forall>n. c \<noteq> InitCudaGraphState n) \<longrightarrow>
        cuda_graph_start_loc (fst (state_of (run c s))) = cuda_graph_start_loc (fst s)
      \<and> cuda_graph_attn_logits (fst (state_of (run c s))) = cuda_graph_attn_logits (fst s))"
proof (cases s)
  case (Pair self h)
  then show ?thesis
    by (cases c)
      (simp_all add: init_forward_metadata_graph_fields capture_graph_fields
        init_cuda_graph_state_max_seq_len replay_backend)
qed

text \<open>
  Claim C7.  Whatever \<open>bs\<close>, \<open>req_pool_indices\<close> and \<open>seq_lens\<close> are,
  \<^verbatim>\<open>init_forward_metadata_capture_cuda_graph\<close> stores the references held in
  \<^verbatim>\<open>cuda_graph_start_loc\<close> and \<^verbatim>\<open>cuda_graph_attn_logits\<close> and the number
  \<^verbatim>\<open>cuda_graph_max_seq_len\<close>, and leaves the store alone.  The two references are the
  objects that \<^verbatim>\<open>init_cuda_graph_state\<close> allocated, the number is the context length
  that \<^verbatim>\<open>__init__\<close> read from the model configuration, and no other method changes
  any of the three.
\<close>

theorem capture_uses_graph_buffers:
  "(cuda_graph_start_loc self = Some a \<and> cuda_graph_attn_logits self = Some c \<longrightarrow>
      init_forward_metadata_capture_cuda_graph self h bs rpi sl =
        Done (self\<lparr>forward_metadata :=
                 Some (Some a, Some c, Some (int (cuda_graph_max_seq_len self)), None)\<rparr>, h))
   \<and> (init_cuda_graph_state self0 h0 max_bs = Done (self1, h1) \<longrightarrow>
        cuda_graph_start_loc self1 = Some (next_ref h0)
      \<and> cuda_graph_attn_logits self1 = Some (Suc (next_ref h0))
      \<and> cuda_graph_max_seq_len self1 = cuda_graph_max_seq_len self0
      \<and> next_ref h0 < next_ref h1 \<and> Suc (next_ref h0) < next_ref h1)
   \<and> (init d mr = Inr self2 \<longrightarrow> cuda_graph_max_seq_len self2 = context_len mr)
   \<and> cuda_graph_max_seq_len (fst (state_of (run cl s))) = cuda_graph_max_seq_len (fst s)
   \<and> ((\<forall>n. cl \<noteq> InitCudaGraphState n) \<longrightarrow>
        cuda_graph_start_loc (fst (state_of (run cl s))) = cuda_graph_start_loc (fst s)
      \<and> cuda_graph_attn_logits (fst (state_of (run cl s))) = cuda_graph_attn_logits (fst s))"
proof -
  have capture: "init_forward_metadata_capture_cuda_graph self h bs rpi sl =
        Done (self\<lparr>forward_metadata :=
                 Some (Some a, Some c, Some (int (cuda_graph_max_seq_len self)), None)\<rparr>, h)"
    if "cuda_graph_start_loc self = Some a \<and> cuda_graph_attn_logits self = Some c"
    using that by (simp add: init_forward_metadata_capture_cuda_graph_def)
  have alloc: "cuda_graph_start_loc self1 = Some (next_ref h0)
      \<and> cuda_graph_attn_logits self1 = Some (Suc (next_ref h0))
      \<and> cuda_graph_max_seq_len self1 = cuda_graph_max_seq_len self0
      \<and> next_ref h0 < next_ref h1 \<and> Suc (next_ref h0) < next_ref h1"
    if run: "init_cuda_graph_state self0 h0 max_bs = Done (self1, h1)"
  proof -
    have "0 \<le> max_bs"
    proof (rule ccontr)
      assume "\<not> 0 \<le> max_bs"
      then have "max_bs < 0" by simp
      from init_cuda_graph_state_Raised [OF this, of self0 h0] run show False by simp
    qed
    from init_cuda_graph_state_Done [OF this, of self0 h0] run show ?thesis by auto
  qed
  have config: "cuda_graph_max_seq_len self2 = context_len mr" if "init d mr = Inr self2"
    using that by (auto simp: init_def split: if_splits)
  from capture alloc config run_graph_fields [of cl s] show ?thesis by blast
qed

text \<open>The theorem at a graph state for two requests, built on the example backend.\<close>

theorem capture_uses_graph_buffers_witness:
  "init_forward_metadata_capture_cuda_graph (fst (example_graph_state 2))
      (snd (example_graph_state 2)) 1 (int32_tensor [5]) (int32_tensor [3]) =
     Done ((fst (example_graph_state 2))\<lparr>forward_metadata := Some (Some 0, Some 1, Some 8, None)\<rparr>,
           snd (example_graph_state 2))
   \<and> cuda_graph_start_loc (fst (example_graph_state 2)) = Some (next_ref example_heap)
   \<and> cuda_graph_attn_logits (fst (example_graph_state 2)) = Some (Suc (next_ref example_heap))
   \<and> cuda_graph_max_seq_len example_backend = 8"
proof -
  have g: "init_cuda_graph_state example_backend example_heap 2
             = Done (fst (example_graph_state 2), snd (example_graph_state 2))"
    by (simp add: example_graph_state_def init_cuda_graph_state_Done)
  have a: "cuda_graph_start_loc (fst (example_graph_state 2)) = Some 0
           \<and> cuda_graph_attn_logits (fst (example_graph_state 2)) = Some 1"
    by (simp add: example_graph_state_eq)
  have m: "cuda_graph_max_seq_len (fst (example_graph_state 2)) = 8"
    by (simp add: example_graph_state_eq) (simp add: example_backend_def)
  from capture_uses_graph_buffers
    [where self = "fst (example_graph_state 2)" and a = 0 and c = 1
       and h = "snd (example_graph_state 2)" and bs = 1 and rpi = "int32_tensor [5]"
       and sl = "int32_tensor [3]" and ?self0.0 = example_backend and ?h0.0 = example_heap
       and max_bs = 2 and ?self1.0 = "fst (example_graph_state 2)"
       and ?h1.0 = "snd (example_graph_state 2)"
       and d = "\<lambda>k. None" and mr = "\<lparr>num_attention_heads = 2, tp_size = 1, context_len = 8\<rparr>"
       and ?self2.0 = example_backend]
  show ?thesis
    using g a m example_backend_init by simp
qed

section \<open>Sub-batches\<close>

lemma offsets_setslice:
  "setslice (Some 1) None (zeros_like t dt) (cumsum (getslice None (Some (- 1)) t)) =
     Inr \<lparr>dtype = dt,
          elems = map (\<lambda>i. cast dt (sum_list (take i (elems t)))) [0 ..< length (elems t)]\<rparr>"
proof (cases "elems t = []")
  case True
  then show ?thesis
    by (simp add: zeros_like_def setslice_def getslice_def cumsum_def
        slice_lo_def slice_hi_def slice_bound_def)
next
  case False
  let ?xs = "elems t"
  let ?n = "length ?xs"
  have n: "Suc (?n - 1) = ?n" using False by (cases ?xs) simp_all
  have src: "elems (cumsum (getslice None (Some (- 1)) t)) = cumsum_from 0 (take (?n - 1) ?xs)"
    by (simp add: cumsum_def getslice_butlast)
  then have len: "length (elems (cumsum (getslice None (Some (- 1)) t))) = ?n - 1"
    by simp
  have "setslice (Some 1) None (zeros_like t dt) (cumsum (getslice None (Some (- 1)) t)) =
          Inr \<lparr>dtype = dt, elems = 0 # map (cast dt) (cumsum_from 0 (take (?n - 1) ?xs))\<rparr>"
    unfolding zeros_like_def
    using False by (simp add: setslice_from_1 [OF len] src)
  moreover have "0 # map (cast dt) (cumsum_from 0 (take (?n - 1) ?xs))
      = map (\<lambda>i. cast dt (sum_list (take i ?xs))) [0 ..< Suc (?n - 1)]"
    by (rule prefix_offsets) simp
  ultimately show ?thesis by (simp only: n)
qed

lemma gather_nth:
  "gather xs ix = Inr ys \<Longrightarrow>
     ys = map (\<lambda>i. xs ! nat (if i < 0 then i + int (length xs) else i)) ix"
  by (induction ix arbitrary: ys) (auto simp: Let_def split: if_splits sum.splits)

text \<open>
  Claim C3.  When the batch carries an index list, every array of lengths that the offsets
  are computed from is the array re-sliced by that list: \<^verbatim>\<open>init_forward_metadata\<close> behaves
  as it does on the batch whose sequence lengths and prefix lengths have been sliced
  beforehand, \<^verbatim>\<open>forward_extend\<close> hands the kernel the sliced sequence lengths, the sliced
  new-token lengths and the cumulative offsets of the sliced new-token lengths, and
  \<^verbatim>\<open>forward_decode\<close> hands it the sliced sequence lengths.  (The pool indices, which
  are no lengths, go to the kernels as the batch has them.)
\<close>

theorem sub_batch_slices_consistently:
  assumes "local_seq_indices fb = Some ix"
    and "index_tensor (seq_lens fb) ix = Inr sl"
  shows "elems sl = map (\<lambda>i. elems (seq_lens fb)
                      ! nat (if i < 0 then i + int (length (elems (seq_lens fb))) else i)) ix
       \<and> (is_decode (forward_mode fb) \<longrightarrow>
            init_forward_metadata self h fb =
              init_forward_metadata self h (fb\<lparr>seq_lens := sl, local_seq_indices := None\<rparr>))
       \<and> (index_tensor (extend_prefix_lens fb) ix = Inr pl \<longrightarrow>
            init_forward_metadata self h fb =
              init_forward_metadata self h
                (fb\<lparr>seq_lens := sl, extend_prefix_lens := pl, local_seq_indices := None\<rparr>))
       \<and> (index_tensor (extend_seq_lens fb) ix = Inr el \<longrightarrow>
            forward_extend self fb =
              (case forward_metadata self of
                 None \<Rightarrow> Inl TypeError
               | Some md \<Rightarrow>
                   Inr \<lparr>ext_req_pool_indices = req_pool_indices fb,
                        ext_seq_lens = sl, ext_extend_seq_lens = el,
                        ext_extend_start_loc =
                          \<lparr>dtype = dtype el,
                           elems = map (\<lambda>i. cast (dtype el) (sum_list (take i (elems el))))
                                     [0 ..< length (elems el)]\<rparr>,
                        ext_max_extend_len = snd (snd (snd md))\<rparr>))
       \<and> forward_decode self fb =
           (case forward_metadata self of
              None \<Rightarrow> Inl TypeError
            | Some md \<Rightarrow>
                Inr \<lparr>dec_req_pool_indices = req_pool_indices fb,
                     dec_start_loc = fst md, dec_seq_lens = sl,
                     dec_attn_logits = fst (snd md), dec_max_seq_len = fst (snd (snd md))\<rparr>)"
proof -
  have sliced: "elems sl = map (\<lambda>i. elems (seq_lens fb)
                      ! nat (if i < 0 then i + int (length (elems (seq_lens fb))) else i)) ix"
    using assms(2) by (auto simp: index_tensor_def split: sum.splits dest: gather_nth)
  have decode: "init_forward_metadata self h fb =
      init_forward_metadata self h (fb\<lparr>seq_lens := sl, local_seq_indices := None\<rparr>)"
    if "is_decode (forward_mode fb)"
    using that assms by (simp add: init_forward_metadata_def local_slice_def)
  have both: "init_forward_metadata self h fb =
      init_forward_metadata self h
        (fb\<lparr>seq_lens := sl, extend_prefix_lens := pl, local_seq_indices := None\<rparr>)"
    if "index_tensor (extend_prefix_lens fb) ix = Inr pl"
    using that assms by (simp add: init_forward_metadata_def local_slice_def)
  have extend: "forward_extend self fb =
      (case forward_metadata self of
         None \<Rightarrow> Inl TypeError
       | Some md \<Rightarrow>
           Inr \<lparr>ext_req_pool_indices = req_pool_indices fb,
                ext_seq_lens = sl, ext_extend_seq_lens = el,
                ext_extend_start_loc =
                  \<lparr>dtype = dtype el,
                   elems = map (\<lambda>i. cast (dtype el) (sum_list (take i (elems el))))
                             [0 ..< length (elems el)]\<rparr>,
                ext_max_extend_len = snd (snd (snd md))\<rparr>)"
    if "index_tensor (extend_seq_lens fb) ix = Inr el"
    using that assms by (simp add: forward_extend_def offsets_setslice split: option.splits)
  have "forward_decode self fb =
      (case forward_metadata self of
         None \<Rightarrow> Inl TypeError
       | Some md \<Rightarrow>
           Inr \<lparr>dec_req_pool_indices = req_pool_indices fb,
                dec_start_loc = fst md, dec_seq_lens = sl,
                dec_attn_logits = fst (snd md), dec_max_seq_len = fst (snd (snd md))\<rparr>)"
    using assms by (simp add: forward_decode_def local_slice_def split: option.splits)
  with sliced decode both extend show ?thesis by blast
qed

text \<open>The theorem at the full lengths \<open>[3, 5, 2, 9]\<close> with the index list \<open>[0, 2]\<close>:
  the effective lengths are \<open>[3, 2]\<close> and the decode offsets \<open>[0, 3]\<close>.\<close>

theorem sub_batch_slices_consistently_witness:
  "forward_extend (example_backend\<lparr>forward_metadata := Some (None, None, None, Some 2)\<rparr>)
      (extend_batch [3, 5, 2, 9] [1, 2, 1, 4] (Some [0, 2])) =
     Inr \<lparr>ext_req_pool_indices = int32_tensor [0, 1, 2, 3],
          ext_seq_lens = int32_tensor [3, 2], ext_extend_seq_lens = int32_tensor [2, 1],
          ext_extend_start_loc = int32_tensor [0, 2], ext_max_extend_len = Some 2\<rparr>
   \<and> init_forward_metadata example_backend example_heap
        (extend_batch [3, 5, 2, 9] [1, 2, 1, 4] (Some [0, 2])) =
      Done (example_backend\<lparr>forward_metadata := Some (None, None, None, Some 2)\<rparr>, example_heap)
   \<and> init_forward_metadata example_backend example_heap (decode_batch [3, 5, 2, 9] (Some [0, 2])) =
      init_forward_metadata example_backend example_heap
        ((decode_batch [3, 5, 2, 9] None)\<lparr>seq_lens := int32_tensor [3, 2]\<rparr>)
   \<and> metadata_start_loc (state_of (init_forward_metadata example_backend example_heap
        (decode_batch [3, 5, 2, 9] (Some [0, 2])))) = Some (int32_tensor [0, 3])"
proof -
  let ?fb = "extend_batch [3, 5, 2, 9] [1, 2, 1, 4] (Some [0, 2])"
  let ?db = "decode_batch [3, 5, 2, 9] (Some [0, 2])"
  have ix: "index_tensor (int32_tensor [3, 5, 2, 9]) [0, 2] = Inr (int32_tensor [3, 2])"
    "index_tensor (int32_tensor [1, 2, 1, 4]) [0, 2] = Inr (int32_tensor [1, 1])"
    "index_tensor (int32_tensor [2, 3, 1, 5]) [0, 2] = Inr (int32_tensor [2, 1])"
    by (simp_all add: index_tensor_def int32_tensor_def)
  have offs: "map (\<lambda>i. cast Int32 (sum_list (take i [2, 1]))) [0 ..< length [2, 1 :: int]] = [0, 2]"
    by code_simp
  have e: "forward_extend (example_backend\<lparr>forward_metadata := Some (None, None, None, Some 2)\<rparr>) ?fb =
     Inr \<lparr>ext_req_pool_indices = int32_tensor [0, 1, 2, 3],
          ext_seq_lens = int32_tensor [3, 2], ext_extend_seq_lens = int32_tensor [2, 1],
          ext_extend_start_loc = int32_tensor [0, 2], ext_max_extend_len = Some 2\<rparr>"
    using sub_batch_slices_consistently [where fb = ?fb and ix = "[0, 2]"
        and sl = "int32_tensor [3, 2]" and el = "int32_tensor [2, 1]"
        and self = "example_backend\<lparr>forward_metadata := Some (None, None, None, Some 2)\<rparr>"]
      ix offs
    by (simp add: extend_batch_def) (simp add: int32_tensor_def)
  have "init_forward_metadata example_backend example_heap ?fb =
      init_forward_metadata example_backend example_heap
        (?fb\<lparr>seq_lens := int32_tensor [3, 2], extend_prefix_lens := int32_tensor [1, 1],
              local_seq_indices := None\<rparr>)"
    using sub_batch_slices_consistently [where fb = ?fb and ix = "[0, 2]"
        and sl = "int32_tensor [3, 2]" and pl = "int32_tensor [1, 1]"
        and self = example_backend and h = example_heap]
      ix
    by (simp add: extend_batch_def)
  also have "\<dots> = Done (example_backend\<lparr>forward_metadata := Some (None, None, None, Some 2)\<rparr>,
                       example_heap)"
    by (simp add: init_forward_metadata_def extend_batch_def int32_tensor_def local_slice_def
        tensor_sub_def torch_max_def cast_def wrap_signed_def)
  finally have m: "init_forward_metadata example_backend example_heap ?fb =
      Done (example_backend\<lparr>forward_metadata := Some (None, None, None, Some 2)\<rparr>, example_heap)" .
  have d: "init_forward_metadata example_backend example_heap ?db =
      init_forward_metadata example_backend example_heap
        ((decode_batch [3, 5, 2, 9] None)\<lparr>seq_lens := int32_tensor [3, 2]\<rparr>)"
    using sub_batch_slices_consistently [where fb = ?db and ix = "[0, 2]"
        and sl = "int32_tensor [3, 2]" and self = example_backend and h = example_heap] ix
    by (simp add: decode_batch_def)
  have "map (\<lambda>i. cast Int32 (sum_list (take i [3, 2]))) [0 ..< length [3, 2 :: int]] = [0, 3]"
    by code_simp
  moreover have "0 \<le> torch_sum (int32_tensor [3, 2])"
    by (simp add: torch_sum_def int32_tensor_def cast_def wrap_signed_def)
  ultimately have "metadata_start_loc (state_of (init_forward_metadata example_backend example_heap
        ((decode_batch [3, 5, 2, 9] None)\<lparr>seq_lens := int32_tensor [3, 2]\<rparr>)))
          = Some (int32_tensor [0, 3])"
    using decode_metadata_start_loc
      [where fb = "(decode_batch [3, 5, 2, 9] None)\<lparr>seq_lens := int32_tensor [3, 2]\<rparr>"
        and sl = "int32_tensor [3, 2]" and self = example_backend and h = example_heap]
    by (simp add: decode_batch_def int32_tensor_def local_slice_def)
  with e m d show ?thesis by simp
qed

section \<open>Building the metadata twice\<close>

lemma init_forward_metadata_extend_Done:
  assumes "\<not> is_decode (forward_mode fb)" and "init_forward_metadata self h fb = Done s"
  shows "\<exists>m. s = (self\<lparr>forward_metadata := Some (None, None, None, Some m)\<rparr>, h)
           \<and> (\<forall>self' h'. init_forward_metadata self' h' fb =
                  Done (self'\<lparr>forward_metadata := Some (None, None, None, Some m)\<rparr>, h'))"
  using assms
  by (auto simp: init_forward_metadata_def split: sum.splits if_splits)

lemma init_forward_metadata_decode_Done:
  assumes "is_decode (forward_mode fb)" and "init_forward_metadata self h fb = Done s"
  shows "\<exists>sl. local_slice (local_seq_indices fb) (seq_lens fb) = Inr sl \<and> 0 \<le> torch_sum sl"
proof (cases "local_slice (local_seq_indices fb) (seq_lens fb)")
  case (Inl e)
  from init_forward_metadata_slice_raises [OF this, of self h] assms(2) show ?thesis by simp
next
  case (Inr sl)
  have "0 \<le> torch_sum sl"
  proof (rule ccontr)
    assume "\<not> 0 \<le> torch_sum sl"
    then have "torch_sum sl < 0" by simp
    from init_forward_metadata_decode_raises [OF assms(1) Inr this, of self h] assms(2)
    show False by simp
  qed
  with Inr show ?thesis by simp
qed

lemma decode_metadata_view:
  assumes "is_decode (forward_mode fb)"
    and "local_slice (local_seq_indices fb) (seq_lens fb) = Inr sl"
    and "0 \<le> torch_sum sl"
  shows "metadata_view (state_of (init_forward_metadata self h fb)) =
    (Some \<lparr>dtype = Int32,
           elems = map (\<lambda>i. cast Int32 (sum_list (take i (elems sl)))) [0 ..< length (elems sl)]\<rparr>,
     Some (reduce_dtype self, num_head self, nat (torch_sum sl)),
     Some (if elems sl = [] then 0 else Max (set (elems sl))),
     None)"
  by (simp add: init_forward_metadata_decode [OF assms] metadata_view_def metadata_start_loc_def
      metadata_attn_logits_def metadata_max_seq_len_def metadata_max_extend_len_def)

lemma decode_config_kept:
  assumes "is_decode (forward_mode fb)"
    and "local_slice (local_seq_indices fb) (seq_lens fb) = Inr sl"
    and "0 \<le> torch_sum sl"
  shows "num_head (fst (state_of (init_forward_metadata self h fb))) = num_head self
       \<and> reduce_dtype (fst (state_of (init_forward_metadata self h fb))) = reduce_dtype self"
  by (simp add: init_forward_metadata_decode [OF assms])

text \<open>
  Claim C9, without the contents of the accumulator.  When \<^verbatim>\<open>init_forward_metadata\<close> has
  returned on a batch, calling it again on the same batch returns as well, and the two
  metadata agree on the element type and values of \<open>start_loc\<close>, on the element type and
  shape of the accumulator, on \<open>max_seq_len\<close> and on \<open>max_extend_len\<close>.
\<close>

theorem init_forward_metadata_repeatable:
  assumes "init_forward_metadata self h fb = Done s1"
  shows "\<exists>s2. init_forward_metadata (fst s1) (snd s1) fb = Done s2
            \<and> metadata_view s2 = metadata_view s1"
proof (cases "is_decode (forward_mode fb)")
  case True
  from init_forward_metadata_decode_Done [OF True assms]
  obtain sl where sl: "local_slice (local_seq_indices fb) (seq_lens fb) = Inr sl"
    and nonneg: "0 \<le> torch_sum sl" by blast
  have s1: "s1 = state_of (init_forward_metadata self h fb)" using assms by simp
  obtain s2 where s2: "init_forward_metadata (fst s1) (snd s1) fb = Done s2"
    using init_forward_metadata_decode [OF True sl nonneg, of "fst s1" "snd s1"] by simp
  have "metadata_view s2 = metadata_view (state_of (init_forward_metadata (fst s1) (snd s1) fb))"
    using s2 by simp
  also have "\<dots> = metadata_view (state_of (init_forward_metadata self h fb))"
    using decode_config_kept [OF True sl nonneg, of self h] s1
    by (simp only: decode_metadata_view [OF True sl nonneg])
  also have "\<dots> = metadata_view s1" using s1 by simp
  finally show ?thesis using s2 by blast
next
  case False
  from init_forward_metadata_extend_Done [OF False assms]
  obtain m where s1: "s1 = (self\<lparr>forward_metadata := Some (None, None, None, Some m)\<rparr>, h)"
    and all: "\<And>self' h'. init_forward_metadata self' h' fb =
                  Done (self'\<lparr>forward_metadata := Some (None, None, None, Some m)\<rparr>, h')"
    by blast
  have "metadata_view (fst s1\<lparr>forward_metadata := Some (None, None, None, Some m)\<rparr>, snd s1)
          = metadata_view s1"
    using s1 by (simp add: metadata_view_def metadata_start_loc_def metadata_attn_logits_def
        metadata_max_seq_len_def metadata_max_extend_len_def)
  with all [of "fst s1" "snd s1"] show ?thesis by blast
qed

lemma decode_metadata_attn_logits:
  assumes "is_decode (forward_mode fb)"
    and "local_slice (local_seq_indices fb) (seq_lens fb) = Inr sl"
    and "0 \<le> torch_sum sl"
  shows "metadata_attn_logits (state_of (init_forward_metadata self h fb)) =
    Some \<lparr>fdtype = reduce_dtype self, fshape = (num_head self, nat (torch_sum sl)),
          fdata = map (uninit h (Suc (next_ref h))) [0 ..< num_head self * nat (torch_sum sl)]\<rparr>"
  by (simp add: init_forward_metadata_decode [OF assms] metadata_attn_logits_def)

lemma decode_heap_after:
  assumes "is_decode (forward_mode fb)"
    and "local_slice (local_seq_indices fb) (seq_lens fb) = Inr sl"
    and "0 \<le> torch_sum sl"
  shows "next_ref (snd (state_of (init_forward_metadata self h fb))) = Suc (Suc (next_ref h))
       \<and> uninit (snd (state_of (init_forward_metadata self h fb))) = uninit h"
  by (simp add: init_forward_metadata_decode [OF assms])

lemma example_decode_facts:
  "is_decode (forward_mode (decode_batch [4, 1, 7] None))"
  "local_slice (local_seq_indices (decode_batch [4, 1, 7] None)) (seq_lens (decode_batch [4, 1, 7] None))
     = Inr (int32_tensor [4, 1, 7])"
  "torch_sum (int32_tensor [4, 1, 7]) = 12"
  by (simp_all add: decode_batch_def local_slice_def torch_sum_def int32_tensor_def cast_def
      wrap_signed_def)

lemma first_run_Done:
  "init_forward_metadata example_backend example_heap (decode_batch [4, 1, 7] None) = Done first_run"
  unfolding first_run_def
  using init_forward_metadata_decode [OF example_decode_facts(1,2), of example_backend example_heap]
  by (simp add: example_decode_facts(3))

text \<open>The theorem at two calls in a row on the decode batch with lengths \<open>[4, 1, 7]\<close>.\<close>

theorem init_forward_metadata_repeatable_witness:
  "init_forward_metadata (fst first_run) (snd first_run) (decode_batch [4, 1, 7] None) = Done second_run
   \<and> metadata_view second_run = metadata_view first_run
   \<and> metadata_view first_run = (Some (int32_tensor [0, 4, 5]), Some (Float16, 2, 12), Some 7, None)"
proof -
  from init_forward_metadata_repeatable [OF first_run_Done]
  have "init_forward_metadata (fst first_run) (snd first_run) (decode_batch [4, 1, 7] None) = Done second_run
   \<and> metadata_view second_run = metadata_view first_run"
    by (auto simp: second_run_def)
  moreover have "map (\<lambda>i. cast Int32 (sum_list (take i [4, 1, 7]))) [0 ..< length [4, 1, 7 :: int]]
          = [0, 4, 5]"
    by code_simp
  then have "metadata_view first_run = (Some (int32_tensor [0, 4, 5]), Some (Float16, 2, 12), Some 7, None)"
    unfolding first_run_def
    using decode_metadata_view [OF example_decode_facts(1,2), of example_backend example_heap]
    by (simp add: example_decode_facts(3)) (simp add: int32_tensor_def example_backend_def)
  ultimately show ?thesis by simp
qed

text \<open>
  The contents of the accumulator are not part of what is repeated: \<^verbatim>\<open>torch.empty\<close>
  does not initialise it, and in a store whose free memory holds the number of the object
  it is handed out for, the accumulator of the first call is filled with 1 and that of the
  second call with 3.
\<close>

theorem accumulator_contents_counterexample:
  "map_option fdata (metadata_attn_logits first_run) = Some (replicate 24 1)
   \<and> map_option fdata (metadata_attn_logits second_run) = Some (replicate 24 3)
   \<and> metadata_attn_logits first_run \<noteq> metadata_attn_logits second_run"
proof -
  have c: "num_head example_backend = 2" "reduce_dtype example_backend = Float16"
    "next_ref example_heap = 0" "uninit example_heap = (\<lambda>r i. int r)"
    by (simp_all add: example_backend_def example_heap_def)
  have one: "metadata_attn_logits first_run =
      Some \<lparr>fdtype = Float16, fshape = (2, 12), fdata = replicate 24 1\<rparr>"
    unfolding first_run_def
    using decode_metadata_attn_logits [OF example_decode_facts(1,2), of example_backend example_heap]
    by (simp add: example_decode_facts(3) c map_replicate_const)
  have h1: "next_ref (snd first_run) = 2" "uninit (snd first_run) = (\<lambda>r i. int r)"
    "num_head (fst first_run) = 2" "reduce_dtype (fst first_run) = Float16"
    unfolding first_run_def
    using decode_heap_after [OF example_decode_facts(1,2), of example_backend example_heap]
      decode_config_kept [OF example_decode_facts(1,2), of example_backend example_heap]
    by (simp_all add: example_decode_facts(3) c)
  have two: "metadata_attn_logits second_run =
      Some \<lparr>fdtype = Float16, fshape = (2, 12), fdata = replicate 24 3\<rparr>"
    unfolding second_run_def
    using decode_metadata_attn_logits [OF example_decode_facts(1,2), of "fst first_run" "snd first_run"]
    by (simp add: example_decode_facts(3) h1 map_replicate_const)
  have "replicate 24 (1::int) \<noteq> replicate 24 3"
    by (simp add: replicate_eq_replicate)
  with one two show ?thesis by simp
qed

section \<open>Replay against a fresh build\<close>

lemma graph_start_loc_store:
  "cuda_graph_start_loc self = Some a \<Longrightarrow> graph_start_loc (self, store a (IntT t) h) = Some t"
  by (simp add: graph_start_loc_def store_def)

text \<open>
  Claim C2, for batch sizes that the table holds.  For a batch size \<open>b\<close> with
  \<open>1 \<le> b\<close>, at most the length of the table of the graph state, and lengths \<open>L\<close>
  with at least \<open>b\<close> entries, \<^verbatim>\<open>init_forward_metadata_replay_cuda_graph\<close> returns, and
  the first \<open>b\<close> entries of the table are the \<open>start_loc\<close> that
  \<^verbatim>\<open>init_forward_metadata\<close> computes in decode mode from the first \<open>b\<close> entries of \<open>L\<close>.
\<close>

theorem replay_matches_fresh_build:
  assumes "1 \<le> b" and "nat b \<le> length (elems L)"
    and "cuda_graph_start_loc self = Some a" and "cells h a = Some (IntT tbl)"
    and "dtype tbl = Int32" and "nat b \<le> length (elems tbl)"
    and "is_decode (forward_mode fb)" and "local_seq_indices fb = None"
    and "seq_lens fb = getslice None (Some b) L"
    and "init_forward_metadata self2 h2 fb = Done s2"
  shows "\<exists>s t. init_forward_metadata_replay_cuda_graph self h b rpi L = Done s
            \<and> graph_start_loc s = Some t
            \<and> metadata_start_loc s2 = Some \<lparr>dtype = Int32, elems = take (nat b) (elems t)\<rparr>"
proof -
  let ?f = "\<lambda>i. cast Int32 (sum_list (take i (elems L)))"
  let ?t = "\<lparr>dtype = Int32, elems = map ?f [0 ..< nat b] @ replicate (length (elems tbl) - nat b) 0\<rparr>"
  have "nat b - 1 \<le> length (elems L)" using assms(2) by simp
  from replay_in_range [OF assms(3,4,1,6) this, of rpi]
  have run: "init_forward_metadata_replay_cuda_graph self h b rpi L = Done (self, store a (IntT ?t) h)"
    by (simp add: assms(5))
  have table: "graph_start_loc (self, store a (IntT ?t) h) = Some ?t"
    using assms(3) by (rule graph_start_loc_store)
  have first: "take (nat b) (elems ?t) = map ?f [0 ..< nat b]" by simp
  let ?sl = "getslice None (Some b) L"
  have sl: "local_slice (local_seq_indices fb) (seq_lens fb) = Inr ?sl"
    using assms(8,9) by (simp add: local_slice_def)
  have lens: "elems ?sl = take (nat b) (elems L)"
    using assms(1) by (simp add: getslice_prefix)
  from init_forward_metadata_decode_Done [OF assms(7,10)] sl
  have nonneg: "0 \<le> torch_sum ?sl" by simp
  have "metadata_start_loc s2 = metadata_start_loc (state_of (init_forward_metadata self2 h2 fb))"
    using assms(10) by simp
  also have "\<dots> = Some \<lparr>dtype = Int32,
      elems = map (\<lambda>i. cast Int32 (sum_list (take i (elems ?sl)))) [0 ..< length (elems ?sl)]\<rparr>"
    using assms(7) sl nonneg by (rule decode_metadata_start_loc)
  also have "map (\<lambda>i. cast Int32 (sum_list (take i (elems ?sl)))) [0 ..< length (elems ?sl)]
               = map ?f [0 ..< nat b]"
    using assms(2) by (simp add: lens min_def)
  finally have "metadata_start_loc s2 = Some \<lparr>dtype = Int32, elems = take (nat b) (elems ?t)\<rparr>"
    by (simp only: first)
  with run table show ?thesis by blast
qed

lemma example_graph_cells:
  "0 \<le> n \<Longrightarrow> cuda_graph_start_loc (fst (example_graph_state n)) = Some 0
     \<and> cells (snd (example_graph_state n)) 0 = Some (IntT \<lparr>dtype = Int32, elems = replicate (nat n) 0\<rparr>)
     \<and> cuda_graph_attn_logits (fst (example_graph_state n)) = Some 1"
  by (simp add: example_graph_state_eq)

lemma example_decode_345:
  "init_forward_metadata example_backend example_heap (decode_batch [3, 4, 5] None)
     = Done (state_of (init_forward_metadata example_backend example_heap (decode_batch [3, 4, 5] None)))"
proof -
  have "0 \<le> torch_sum (int32_tensor [3, 4, 5])"
    by (simp add: torch_sum_def int32_tensor_def cast_def wrap_signed_def)
  from init_forward_metadata_decode [where fb = "decode_batch [3, 4, 5] None"
      and sl = "int32_tensor [3, 4, 5]" and self = example_backend and h = example_heap, OF _ _ this]
  show ?thesis by (simp add: decode_batch_def local_slice_def)
qed

text \<open>The theorem at a table of four entries, batch size 3 and lengths \<open>[3, 4, 5, 1]\<close>.\<close>

theorem replay_matches_fresh_build_witness:
  "\<exists>s t. init_forward_metadata_replay_cuda_graph (fst (example_graph_state 4))
            (snd (example_graph_state 4)) 3 (int32_tensor [0, 1, 2]) (int32_tensor [3, 4, 5, 1]) = Done s
     \<and> graph_start_loc s = Some t
     \<and> metadata_start_loc (state_of
          (init_forward_metadata example_backend example_heap (decode_batch [3, 4, 5] None)))
        = Some \<lparr>dtype = Int32, elems = take (nat 3) (elems t)\<rparr>"
  using replay_matches_fresh_build [where b = 3 and L = "int32_tensor [3, 4, 5, 1]"
      and self = "fst (example_graph_state 4)" and h = "snd (example_graph_state 4)" and a = 0
      and tbl = "\<lparr>dtype = Int32, elems = replicate (nat 4) 0\<rparr>"
      and fb = "decode_batch [3, 4, 5] None" and ?self2.0 = example_backend and ?h2.0 = example_heap
      and rpi = "int32_tensor [0, 1, 2]", OF _ _ _ _ _ _ _ _ _ example_decode_345]
    example_graph_cells [of 4]
  by (simp add: int32_tensor_def decode_batch_def getslice_def slice_lo_def slice_hi_def
      slice_bound_def)

lemma example_replay_raises:
  assumes "cuda_graph_start_loc self = Some a" and "cells h a = Some (IntT tbl)"
    and "length (elems tbl) < nat b" and "3 \<le> b" and "nat b - 1 \<le> length (elems L)"
  shows "raised (init_forward_metadata_replay_cuda_graph self h b rpi L) = Some RuntimeError
       \<and> graph_start_loc (state_of (init_forward_metadata_replay_cuda_graph self h b rpi L))
           = Some (zero_inplace tbl)"
  using assms(1) by (simp add: replay_over_capacity [OF assms] graph_start_loc_store)

text \<open>
  For a batch size beyond the table the claim fails: with a table of two entries, batch
  size 4 and lengths \<open>[1, 1, 1, 1]\<close> the replay raises and leaves the table \<open>[0, 0]\<close>,
  while the fresh build has the offsets \<open>[0, 1, 2, 3]\<close>.
\<close>

theorem replay_beyond_table_counterexample:
  "raised (init_forward_metadata_replay_cuda_graph (fst (example_graph_state 2))
      (snd (example_graph_state 2)) 4 (int32_tensor [0, 1, 2, 3]) (int32_tensor [1, 1, 1, 1]))
     = Some RuntimeError
   \<and> map_option elems (graph_start_loc (state_of
        (init_forward_metadata_replay_cuda_graph (fst (example_graph_state 2))
           (snd (example_graph_state 2)) 4 (int32_tensor [0, 1, 2, 3]) (int32_tensor [1, 1, 1, 1]))))
     = Some [0, 0]
   \<and> map_option elems (metadata_start_loc (state_of
        (init_forward_metadata example_backend example_heap (decode_batch [1, 1, 1, 1] None))))
     = Some [0, 1, 2, 3]"
proof -
  have "raised (init_forward_metadata_replay_cuda_graph (fst (example_graph_state 2))
      (snd (example_graph_state 2)) 4 (int32_tensor [0, 1, 2, 3]) (int32_tensor [1, 1, 1, 1]))
     = Some RuntimeError
   \<and> graph_start_loc (state_of
        (init_forward_metadata_replay_cuda_graph (fst (example_graph_state 2))
           (snd (example_graph_state 2)) 4 (int32_tensor [0, 1, 2, 3]) (int32_tensor [1, 1, 1, 1])))
     = Some (zero_inplace \<lparr>dtype = Int32, elems = replicate (nat 2) 0\<rparr>)"
    using example_graph_cells [of 2]
    by (intro example_replay_raises [where a = 0
          and tbl = "\<lparr>dtype = Int32, elems = replicate (nat 2) 0\<rparr>"])
       (simp_all add: int32_tensor_def)
  moreover have "map (\<lambda>i. cast Int32 (sum_list (take i [1, 1, 1, 1])))
          [0 ..< length [1, 1, 1, 1 :: int]] = [0, 1, 2, 3]"
    by code_simp
  moreover have "0 \<le> torch_sum (int32_tensor [1, 1, 1, 1])"
    by (simp add: torch_sum_def int32_tensor_def cast_def wrap_signed_def)
  ultimately show ?thesis
    using decode_metadata_start_loc [where fb = "decode_batch [1, 1, 1, 1] None"
        and sl = "int32_tensor [1, 1, 1, 1]" and self = example_backend and h = example_heap]
    by (simp add: decode_batch_def int32_tensor_def local_slice_def zero_inplace_def numeral_2_eq_2)
qed

section \<open>Replay and the capacity of the table\<close>

lemma store_frame:
  "next_ref (store a x h) = next_ref h \<and> uninit (store a x h) = uninit h
   \<and> (\<forall>r. r \<noteq> a \<longrightarrow> cells (store a x h) r = cells h r)
   \<and> cells (store a x h) a = Some x"
  by (simp add: store_def)

lemma store_dom: "cells h a = Some y \<Longrightarrow> dom (cells (store a x h)) = dom (cells h)"
  by (auto simp: store_def)

lemma example_replayed_state_eq:
  "example_replayed_state =
     (fst (example_graph_state 2),
      store 0 (IntT \<lparr>dtype = Int32, elems = [0, 5]\<rparr>) (snd (example_graph_state 2)))"
proof -
  have "map (\<lambda>i. cast Int32 (sum_list (take i [5, 1]))) [0 ..< nat 2] = [0, 5]"
    by code_simp
  then show ?thesis
    unfolding example_replayed_state_def
    using replay_in_range [where self = "fst (example_graph_state 2)"
        and h = "snd (example_graph_state 2)" and a = 0
        and tbl = "\<lparr>dtype = Int32, elems = replicate (nat 2) 0\<rparr>" and b = 2
        and L = "int32_tensor [5, 1]" and rpi = "int32_tensor [0, 1]"]
      example_graph_cells [of 2]
    by (simp add: int32_tensor_def)
qed

lemma example_replayed_cells:
  "cuda_graph_start_loc (fst example_replayed_state) = Some 0
   \<and> cells (snd example_replayed_state) 0 = Some (IntT \<lparr>dtype = Int32, elems = [0, 5]\<rparr>)"
  using example_graph_cells [of 2] by (simp add: example_replayed_state_eq store_frame)

text \<open>
  Claim C5, as the code has it.  A replay never writes outside the table of the graph
  state: whatever the batch size \<open>b\<close> and the lengths are, and whether it returns or
  raises, the only object of the store that changes is the table, which keeps its element
  type and its length \<open>max_bs\<close>.  There is no check of \<open>b\<close> against \<open>max_bs\<close>: for
  \<open>b > max_bs\<close> with \<open>b \<ge> 3\<close> (and at least \<open>b - 1\<close> lengths) the replay raises, but
  only at the slice assignment, when the table has already been zeroed.
\<close>

theorem replay_capacity:
  assumes "cuda_graph_start_loc self = Some a" and "cells h a = Some (IntT tbl)"
  shows "(\<exists>t. state_of (init_forward_metadata_replay_cuda_graph self h b rpi L)
                  = (self, h\<lparr>cells := (cells h)(a \<mapsto> IntT t)\<rparr>)
              \<and> dtype t = dtype tbl \<and> length (elems t) = length (elems tbl))
       \<and> (int (length (elems tbl)) < b \<and> 3 \<le> b \<and> nat b - 1 \<le> length (elems L) \<longrightarrow>
            init_forward_metadata_replay_cuda_graph self h b rpi L =
              Raised RuntimeError (self, h\<lparr>cells := (cells h)(a \<mapsto> IntT (zero_inplace tbl))\<rparr>))"
proof -
  have "\<exists>t. state_of (init_forward_metadata_replay_cuda_graph self h b rpi L)
                  = (self, h\<lparr>cells := (cells h)(a \<mapsto> IntT t)\<rparr>)
              \<and> dtype t = dtype tbl \<and> length (elems t) = length (elems tbl)"
    using replay_frame [OF assms, of b rpi L] by (simp add: store_def)
  moreover have "init_forward_metadata_replay_cuda_graph self h b rpi L =
      Raised RuntimeError (self, h\<lparr>cells := (cells h)(a \<mapsto> IntT (zero_inplace tbl))\<rparr>)"
    if "int (length (elems tbl)) < b \<and> 3 \<le> b \<and> nat b - 1 \<le> length (elems L)"
  proof -
    from that have "length (elems tbl) < nat b" and "3 \<le> b" and "nat b - 1 \<le> length (elems L)"
      by auto
    from replay_over_capacity [OF assms this] show ?thesis by (simp add: store_def)
  qed
  ultimately show ?thesis by blast
qed

text \<open>The theorem at a table of two entries that holds \<open>[0, 5]\<close>, and batch size 4.\<close>

theorem replay_capacity_witness:
  "init_forward_metadata_replay_cuda_graph (fst example_replayed_state)
        (snd example_replayed_state) 4 (int32_tensor [0, 1, 2, 3]) (int32_tensor [1, 1, 1, 1])
      = Raised RuntimeError (fst example_replayed_state,
          (snd example_replayed_state)\<lparr>cells := (cells (snd example_replayed_state))
             (0 \<mapsto> IntT \<lparr>dtype = Int32, elems = [0, 0]\<rparr>)\<rparr>)"
  using replay_capacity [where self = "fst example_replayed_state"
      and h = "snd example_replayed_state" and a = 0
      and tbl = "\<lparr>dtype = Int32, elems = [0, 5]\<rparr>" and b = 4
      and L = "int32_tensor [1, 1, 1, 1]" and rpi = "int32_tensor [0, 1, 2, 3]"]
    example_replayed_cells
  by (simp add: int32_tensor_def zero_inplace_def)

text \<open>
  The failure does not come before every write: the table of two entries holds \<open>[0, 5]\<close>
  from an earlier replay, the replay with batch size 4 raises, and the table is \<open>[0, 0]\<close>
  afterwards.
\<close>

theorem replay_writes_before_failing_counterexample:
  "map_option elems (graph_start_loc example_replayed_state) = Some [0, 5]
   \<and> raised (init_forward_metadata_replay_cuda_graph (fst example_replayed_state)
        (snd example_replayed_state) 4 (int32_tensor [0, 1, 2, 3]) (int32_tensor [1, 1, 1, 1]))
      = Some RuntimeError
   \<and> map_option elems (graph_start_loc (state_of
        (init_forward_metadata_replay_cuda_graph (fst example_replayed_state)
           (snd example_replayed_state) 4 (int32_tensor [0, 1, 2, 3]) (int32_tensor [1, 1, 1, 1]))))
      = Some [0, 0]"
proof -
  have "map_option elems (graph_start_loc example_replayed_state) = Some [0, 5]"
    using example_replayed_cells by (simp add: graph_start_loc_def)
  moreover have "raised (init_forward_metadata_replay_cuda_graph (fst example_replayed_state)
        (snd example_replayed_state) 4 (int32_tensor [0, 1, 2, 3]) (int32_tensor [1, 1, 1, 1]))
      = Some RuntimeError
   \<and> graph_start_loc (state_of
        (init_forward_metadata_replay_cuda_graph (fst example_replayed_state)
           (snd example_replayed_state) 4 (int32_tensor [0, 1, 2, 3]) (int32_tensor [1, 1, 1, 1])))
      = Some (zero_inplace \<lparr>dtype = Int32, elems = [0, 5]\<rparr>)"
    using example_replayed_cells
    by (intro example_replay_raises [where a = 0 and tbl = "\<lparr>dtype = Int32, elems = [0, 5]\<rparr>"])
       (simp_all add: int32_tensor_def)
  ultimately show ?thesis by (simp add: zero_inplace_def)
qed

section \<open>What a replay changes\<close>

lemma typed_refs_differ:
  "cells h a = Some (IntT t) \<Longrightarrow> cells h c = Some (FloatT f) \<Longrightarrow> c \<noteq> a"
  by auto

text \<open>
  Claim C8, with the cases in which the entries are set.  Every replay, returning or
  raising, changes nothing but the contents of the table of the graph state: the backend
  is as before, no object is added to the store, the table keeps its element type and
  length, and every other object, the accumulator of the graph state among them, is as
  before.  When the replay raises, the table is all zero.  When
  \<open>1 \<le> b \<le> max_bs\<close> and there are at least \<open>b - 1\<close> lengths, the replay returns, and
  the table holds 0, then at the entries \<open>1\<close> to \<open>b - 1\<close> the cumulative sums of
  \<open>L[0]\<close> to \<open>L[b - 2]\<close> converted to the element type of the table, then zeros.
\<close>

theorem replay_frame_effect:
  assumes "cuda_graph_start_loc self = Some a" and "cells h a = Some (IntT tbl)"
  shows "\<exists>t. graph_start_loc (state_of (init_forward_metadata_replay_cuda_graph self h b rpi L)) = Some t
     \<and> dtype t = dtype tbl \<and> length (elems t) = length (elems tbl)
     \<and> fst (state_of (init_forward_metadata_replay_cuda_graph self h b rpi L)) = self
     \<and> next_ref (snd (state_of (init_forward_metadata_replay_cuda_graph self h b rpi L))) = next_ref h
     \<and> dom (cells (snd (state_of (init_forward_metadata_replay_cuda_graph self h b rpi L))))
         = dom (cells h)
     \<and> (\<forall>r. r \<noteq> a \<longrightarrow>
           cells (snd (state_of (init_forward_metadata_replay_cuda_graph self h b rpi L))) r
             = cells h r)
     \<and> (cuda_graph_attn_logits self = Some c \<and> cells h c = Some (FloatT f) \<longrightarrow>
           graph_attn_logits (state_of (init_forward_metadata_replay_cuda_graph self h b rpi L))
             = Some f)
     \<and> (raised (init_forward_metadata_replay_cuda_graph self h b rpi L) \<noteq> None \<longrightarrow>
           t = zero_inplace tbl)
     \<and> (1 \<le> b \<and> nat b \<le> length (elems tbl) \<and> nat b - 1 \<le> length (elems L) \<longrightarrow>
           raised (init_forward_metadata_replay_cuda_graph self h b rpi L) = None
         \<and> elems t = map (\<lambda>i. cast (dtype tbl) (sum_list (take i (elems L)))) [0 ..< nat b]
                      @ replicate (length (elems tbl) - nat b) 0)"
proof -
  let ?R = "init_forward_metadata_replay_cuda_graph self h b rpi L"
  from replay_frame [OF assms, of b rpi L]
  obtain t where st: "state_of ?R = (self, store a (IntT t) h)"
    and dt: "dtype t = dtype tbl" and len: "length (elems t) = length (elems tbl)"
    by blast
  have tab: "graph_start_loc (state_of ?R) = Some t"
    using assms(1) by (simp add: st graph_start_loc_store)
  have self: "fst (state_of ?R) = self" by (simp add: st)
  have nr: "next_ref (snd (state_of ?R)) = next_ref h" by (simp add: st store_frame)
  have dm: "dom (cells (snd (state_of ?R))) = dom (cells h)"
    using assms(2) by (simp add: st store_dom)
  have others: "\<forall>r. r \<noteq> a \<longrightarrow> cells (snd (state_of ?R)) r = cells h r"
    by (simp add: st store_frame)
  have acc: "graph_attn_logits (state_of ?R) = Some f"
    if "cuda_graph_attn_logits self = Some c \<and> cells h c = Some (FloatT f)"
  proof -
    from that assms(2) have "c \<noteq> a" by (auto dest: typed_refs_differ)
    with that others show ?thesis by (simp add: graph_attn_logits_def self)
  qed
  have zeroed: "t = zero_inplace tbl" if r: "raised ?R \<noteq> None"
  proof (cases "setslice (Some 1) (Some b) (zero_inplace tbl) (cumsum (getslice None (Some (b - 1)) L))")
    case (Inl e)
    then have "state_of ?R = (self, store a (IntT (zero_inplace tbl)) h)"
      by (simp add: replay_unfold [OF assms])
    with st have "cells (store a (IntT t) h) a = cells (store a (IntT (zero_inplace tbl)) h) a"
      by simp
    then show ?thesis by (simp add: store_frame)
  next
    case (Inr t')
    then have "raised ?R = None" by (simp add: replay_unfold [OF assms])
    with r show ?thesis by simp
  qed
  have inrange: "raised ?R = None
      \<and> elems t = map (\<lambda>i. cast (dtype tbl) (sum_list (take i (elems L)))) [0 ..< nat b]
                      @ replicate (length (elems tbl) - nat b) 0"
    if "1 \<le> b \<and> nat b \<le> length (elems tbl) \<and> nat b - 1 \<le> length (elems L)"
  proof -
    from that have "1 \<le> b" and "nat b \<le> length (elems tbl)" and "nat b - 1 \<le> length (elems L)"
      by auto
    note run = replay_in_range [OF assms this, of rpi]
    then have "raised ?R = None" by simp
    moreover from run st have "cells (store a (IntT t) h) a = cells (store a (IntT
        \<lparr>dtype = dtype tbl,
         elems = map (\<lambda>i. cast (dtype tbl) (sum_list (take i (elems L)))) [0 ..< nat b]
                 @ replicate (length (elems tbl) - nat b) 0\<rparr>) h) a"
      by simp
    then have "elems t = map (\<lambda>i. cast (dtype tbl) (sum_list (take i (elems L)))) [0 ..< nat b]
                      @ replicate (length (elems tbl) - nat b) 0"
      by (simp add: store_frame)
    ultimately show ?thesis by simp
  qed
  from tab dt len self nr dm others acc zeroed inrange show ?thesis by blast
qed

text \<open>The theorem at a table of four entries, batch size 3 and lengths \<open>[3, 4, 5, 1]\<close>.\<close>

theorem replay_frame_effect_witness:
  "graph_start_loc (state_of (init_forward_metadata_replay_cuda_graph (fst (example_graph_state 4))
      (snd (example_graph_state 4)) 3 (int32_tensor [0, 1, 2]) (int32_tensor [3, 4, 5, 1])))
     = Some (int32_tensor [0, 3, 7, 0])
   \<and> raised (init_forward_metadata_replay_cuda_graph (fst (example_graph_state 4))
      (snd (example_graph_state 4)) 3 (int32_tensor [0, 1, 2]) (int32_tensor [3, 4, 5, 1])) = None
   \<and> graph_attn_logits (state_of (init_forward_metadata_replay_cuda_graph (fst (example_graph_state 4))
      (snd (example_graph_state 4)) 3 (int32_tensor [0, 1, 2]) (int32_tensor [3, 4, 5, 1])))
     = graph_attn_logits (example_graph_state 4)
   \<and> next_ref (snd (state_of (init_forward_metadata_replay_cuda_graph (fst (example_graph_state 4))
      (snd (example_graph_state 4)) 3 (int32_tensor [0, 1, 2]) (int32_tensor [3, 4, 5, 1]))))
     = next_ref (snd (example_graph_state 4))"
proof -
  let ?R = "init_forward_metadata_replay_cuda_graph (fst (example_graph_state 4))
      (snd (example_graph_state 4)) 3 (int32_tensor [0, 1, 2]) (int32_tensor [3, 4, 5, 1])"
  let ?f = "\<lparr>fdtype = Float16, fshape = (2, nat (4 * 8)),
                 fdata = map (\<lambda>i. 1) [0 ..< 2 * nat (4 * 8)]\<rparr>"
  have acc: "cuda_graph_attn_logits (fst (example_graph_state 4)) = Some 1
      \<and> cells (snd (example_graph_state 4)) 1 = Some (FloatT ?f)"
    by (simp add: example_graph_state_eq)
  then have acc': "graph_attn_logits (example_graph_state 4) = Some ?f"
    by (simp add: graph_attn_logits_def)
  have offs: "map (\<lambda>i. cast Int32 (sum_list (take i [3, 4, 5, 1]))) [0 ..< 3] = [0, 3, 7]"
    by code_simp
  from replay_frame_effect [where self = "fst (example_graph_state 4)"
      and h = "snd (example_graph_state 4)" and a = 0
      and tbl = "\<lparr>dtype = Int32, elems = replicate (nat 4) 0\<rparr>" and b = 3
      and L = "int32_tensor [3, 4, 5, 1]" and rpi = "int32_tensor [0, 1, 2]"
      and c = 1 and f = ?f]
    example_graph_cells [of 4] acc
  obtain t where t: "graph_start_loc (state_of ?R) = Some t" "dtype t = Int32"
    "elems t = map (\<lambda>i. cast Int32 (sum_list (take i [3, 4, 5, 1]))) [0 ..< nat 3] @ replicate (4 - nat 3) 0"
    and rest: "raised ?R = None" "graph_attn_logits (state_of ?R) = Some ?f"
      "next_ref (snd (state_of ?R)) = next_ref (snd (example_graph_state 4))"
    by (auto simp: int32_tensor_def)
  from t(2,3) have "t = int32_tensor [0, 3, 7, 0]"
    by (cases t) (simp add: offs int32_tensor_def)
  with t(1) rest acc' show ?thesis by simp
qed

text \<open>
  Not every replay sets the entries: with a table of two entries, batch size 3 and lengths
  \<open>[4, 1, 7]\<close> the cumulative sums to be written are \<open>[4, 5]\<close>, the slice of the table
  has one place, the assignment raises, and the table is left \<open>[0, 0]\<close>.
\<close>

theorem replay_raises_after_zeroing_counterexample:
  "raised (init_forward_metadata_replay_cuda_graph (fst (example_graph_state 2))
      (snd (example_graph_state 2)) 3 (int32_tensor [0, 1, 2]) (int32_tensor [4, 1, 7]))
     = Some RuntimeError
   \<and> map_option elems (graph_start_loc (state_of
        (init_forward_metadata_replay_cuda_graph (fst (example_graph_state 2))
           (snd (example_graph_state 2)) 3 (int32_tensor [0, 1, 2]) (int32_tensor [4, 1, 7]))))
     = Some [0, 0]
   \<and> elems (cumsum (getslice None (Some (3 - 1)) (int32_tensor [4, 1, 7]))) = [4, 5]"
proof -
  have "raised (init_forward_metadata_replay_cuda_graph (fst (example_graph_state 2))
      (snd (example_graph_state 2)) 3 (int32_tensor [0, 1, 2]) (int32_tensor [4, 1, 7]))
     = Some RuntimeError
   \<and> graph_start_loc (state_of
        (init_forward_metadata_replay_cuda_graph (fst (example_graph_state 2))
           (snd (example_graph_state 2)) 3 (int32_tensor [0, 1, 2]) (int32_tensor [4, 1, 7])))
     = Some (zero_inplace \<lparr>dtype = Int32, elems = replicate (nat 2) 0\<rparr>)"
    using example_graph_cells [of 2]
    by (intro example_replay_raises [where a = 0
          and tbl = "\<lparr>dtype = Int32, elems = replicate (nat 2) 0\<rparr>"])
       (simp_all add: int32_tensor_def)
  moreover have "elems (cumsum (getslice None (Some (3 - 1)) (int32_tensor [4, 1, 7]))) = [4, 5]"
    by (simp add: cumsum_def getslice_prefix int32_tensor_def cast_def wrap_signed_def)
  ultimately show ?thesis by (simp add: zero_inplace_def numeral_2_eq_2)
qed

end
